theory Spec2Isabelle
  imports Complex_Main
begin

section \<open>Python values as the bot sees them\<close>

text \<open>
  The bot works on what \<^verbatim>\<open>json.loads\<close> returns: dictionaries whose values are of any
  JSON type. A Python \<^verbatim>\<open>str\<close> is a sequence of code points, so a string is a list of
  natural numbers and \<^verbatim>\<open>len\<close> is \<open>length\<close>; \<open>U\<close> embeds an ASCII literal.
  A dictionary is an association list whose first binding of a key is the one that
  counts.
\<close>

type_synonym pystr = "nat list"

abbreviation U :: "string \<Rightarrow> pystr" where
  "U s \<equiv> map of_char s"

datatype error =
    TypeError | ValueError | AttributeError | OverflowError | IndexError
  | URLError | JSONDecodeError

text \<open>
  A Python \<^verbatim>\<open>float\<close> is an IEEE 754 binary64 value: a finite number, which is a
  rational, or the negative zero, an infinity or NaN. \<open>Finite 0\<close> is the positive zero.
  \<^verbatim>\<open>json.loads\<close> reads a number with a fraction or an exponent as a float, and the
  literals \<^verbatim>\<open>NaN\<close>, \<^verbatim>\<open>Infinity\<close> and \<^verbatim>\<open>-Infinity\<close> as well; an integer literal
  is read as an integer of any size.
\<close>

datatype pyfloat = Finite rat | NegZero | PosInf | NegInf | NaN

datatype json =
    JNull
  | JBool bool
  | JInt int
  | JFloat pyfloat
  | JStr pystr
  | JArr "json list"
  | JObj "(pystr \<times> json) list"

type_synonym pydict = "(pystr \<times> json) list"

datatype pydatetime = Naive int | Aware int

text \<open>
  The primitives of the Python runtime that the bot calls and that are not spelled out
  here are the fields of a record: \<^verbatim>\<open>float(s)\<close> on a string (\<open>None\<close> is ValueError),
  the format specification \<^verbatim>\<open>:.Nf\<close>, \<^verbatim>\<open>str\<close> of a float, list or dictionary,
  \<^verbatim>\<open>str.lower\<close>, \<^verbatim>\<open>datetime.fromisoformat\<close> (\<open>None\<close> is ValueError; an aware
  result carries its UTC instant in microseconds since the epoch), and what
  \<^verbatim>\<open>list.sort(reverse=True)\<close> makes of a list of pairs of key and event when one of the
  keys is NaN. The general theorems hold for every such record.
\<close>

record pylib =
  float_of_str :: "pystr \<Rightarrow> pyfloat option"
  format_fixed :: "nat \<Rightarrow> pyfloat \<Rightarrow> pystr"
  repr_of :: "json \<Rightarrow> pystr"
  str_lower :: "pystr \<Rightarrow> pystr"
  fromisoformat :: "pystr \<Rightarrow> pydatetime option"
  sort_unordered :: "(pyfloat \<times> pydict) list \<Rightarrow> (pyfloat \<times> pydict) list"

text \<open>\<^verbatim>\<open>d.get(k)\<close> and \<^verbatim>\<open>d.get(k, default)\<close>.\<close>

definition dict_get :: "pydict \<Rightarrow> pystr \<Rightarrow> json" where
  "dict_get d k = (case map_of d k of None \<Rightarrow> JNull | Some v \<Rightarrow> v)"

definition dict_get_or :: "pydict \<Rightarrow> pystr \<Rightarrow> json \<Rightarrow> json" where
  "dict_get_or d k dflt = (case map_of d k of None \<Rightarrow> dflt | Some v \<Rightarrow> v)"

text \<open>Truth value of an object, and \<^verbatim>\<open>a or b\<close>.\<close>

fun truthy :: "json \<Rightarrow> bool" where
  "truthy JNull = False"
| "truthy (JBool b) = b"
| "truthy (JInt i) = (i \<noteq> 0)"
| "truthy (JFloat x) = (x \<noteq> Finite 0 \<and> x \<noteq> NegZero)"
| "truthy (JStr s) = (s \<noteq> [])"
| "truthy (JArr xs) = (xs \<noteq> [])"
| "truthy (JObj d) = (d \<noteq> [])"

definition py_or :: "json \<Rightarrow> json \<Rightarrow> json" where
  "py_or a b = (if truthy a then a else b)"

text \<open>Decimal digits of an integer, as \<^verbatim>\<open>str(int)\<close> prints them.\<close>

fun nat_to_dec :: "nat \<Rightarrow> pystr" where
  "nat_to_dec n = (if n < 10 then [48 + n] else nat_to_dec (n div 10) @ [48 + n mod 10])"

declare nat_to_dec.simps [simp del]

definition int_to_dec :: "int \<Rightarrow> pystr" where
  "int_to_dec i = (if i < 0 then 45 # nat_to_dec (nat (- i)) else nat_to_dec (nat i))"

text \<open>\<^verbatim>\<open>str(v)\<close>, which is also what an f-string field prints.\<close>

definition py_str :: "pylib \<Rightarrow> json \<Rightarrow> pystr" where
  "py_str L v =
     (case v of
        JStr s \<Rightarrow> s
      | JNull \<Rightarrow> U ''None''
      | JBool b \<Rightarrow> (if b then U ''True'' else U ''False'')
      | JInt i \<Rightarrow> int_to_dec i
      | _ \<Rightarrow> repr_of L v)"

text \<open>
  Rounding to binary64. \<open>floor_log2 a\<close> is the exponent of a positive rational: the
  integer \<open>e\<close> with \<open>2 ^ e \<le> a < 2 ^ (e + 1)\<close>. A binary64 value of exponent \<open>e\<close> is a
  multiple of \<open>2 ^ (e - 52)\<close>, and of \<open>2 ^ (- 1074)\<close> below the smallest normal number;
  \<open>nearest_binary64\<close> takes the nearest multiple, the even one of two that are equally
  near. A result of \<open>2 ^ 1024\<close> or more is out of range.
\<close>

fun bit_length :: "nat \<Rightarrow> nat" where
  "bit_length n = (if n = 0 then 0 else Suc (bit_length (n div 2)))"

declare bit_length.simps [simp del]

definition floor_log2 :: "rat \<Rightarrow> int" where
  "floor_log2 a =
     (if 1 \<le> a then int (bit_length (nat \<lfloor>a\<rfloor>)) - 1
      else - int (bit_length (nat (\<lceil>1 / a\<rceil> - 1))))"

definition pow2 :: "int \<Rightarrow> rat" where
  "pow2 e = (if 0 \<le> e then 2 ^ nat e else 1 / 2 ^ nat (- e))"

definition round_half_even :: "rat \<Rightarrow> int" where
  "round_half_even x =
     (let f = \<lfloor>x\<rfloor>; d = x - of_int f
      in if d < 1 / 2 then f else if d > 1 / 2 then f + 1 else if even f then f else f + 1)"

definition nearest_binary64 :: "rat \<Rightarrow> rat" where
  "nearest_binary64 a =
     (let quantum = pow2 (max (floor_log2 a) (- 1022) - 52)
      in of_int (round_half_even (a / quantum)) * quantum)"

text \<open>The float nearest to a rational, as the conversion of a decimal literal and the
  division of two floats produce it: out of range is an infinity, and a negative number
  that rounds to zero is the negative zero.\<close>

definition round_binary64 :: "rat \<Rightarrow> pyfloat" where
  "round_binary64 x =
     (if x = 0 then Finite 0
      else (let v = nearest_binary64 \<bar>x\<bar>
            in if 2 ^ 1024 \<le> v then (if x < 0 then NegInf else PosInf)
               else if v = 0 then (if x < 0 then NegZero else Finite 0)
               else Finite (if x < 0 then - v else v)))"

text \<open>\<^verbatim>\<open>float(i)\<close> of an integer rounds in the same way, and raises OverflowError where
  the rounded value is out of range.\<close>

definition float_of_int :: "int \<Rightarrow> error + pyfloat" where
  "float_of_int i =
     (case round_binary64 (of_int i) of
        PosInf \<Rightarrow> Inl OverflowError
      | NegInf \<Rightarrow> Inl OverflowError
      | x \<Rightarrow> Inr x)"

text \<open>
  The comparisons \<^verbatim>\<open>x < y\<close> and \<^verbatim>\<open>x <= y\<close> of two floats: false when one is NaN;
  the two zeros are equal. Python compares a float with an integer by their exact values,
  so an integer operand \<open>i\<close> stands as \<open>Finite (of_int i)\<close>, not rounded.
\<close>

fun fl_class :: "pyfloat \<Rightarrow> int" where
  "fl_class NegInf = - 1"
| "fl_class PosInf = 1"
| "fl_class _ = 0"

fun fl_value :: "pyfloat \<Rightarrow> rat" where
  "fl_value (Finite r) = r"
| "fl_value _ = 0"

definition fl_less :: "pyfloat \<Rightarrow> pyfloat \<Rightarrow> bool" where
  "fl_less x y =
     (x \<noteq> NaN \<and> y \<noteq> NaN
      \<and> (fl_class x < fl_class y \<or> (fl_class x = fl_class y \<and> fl_value x < fl_value y)))"

definition fl_le :: "pyfloat \<Rightarrow> pyfloat \<Rightarrow> bool" where
  "fl_le x y =
     (x \<noteq> NaN \<and> y \<noteq> NaN
      \<and> (fl_class x < fl_class y \<or> (fl_class x = fl_class y \<and> fl_value x \<le> fl_value y)))"

text \<open>\<^verbatim>\<open>x / d\<close> for a float \<open>x\<close> and a positive integer \<open>d\<close> that is a float exactly, as
  1000 and 1000000 are.\<close>

definition fl_div :: "pyfloat \<Rightarrow> int \<Rightarrow> pyfloat" where
  "fl_div x d = (case x of Finite r \<Rightarrow> round_binary64 (r / of_int d) | _ \<Rightarrow> x)"

text \<open>\<^verbatim>\<open>float(v)\<close>: a float is returned as it is, an integer is rounded, a boolean is
  0.0 or 1.0, a string is parsed, and anything else is a TypeError.\<close>

definition py_float :: "pylib \<Rightarrow> json \<Rightarrow> error + pyfloat" where
  "py_float L v =
     (case v of
        JInt i \<Rightarrow> float_of_int i
      | JFloat x \<Rightarrow> Inr x
      | JBool b \<Rightarrow> Inr (Finite (if b then 1 else 0))
      | JStr s \<Rightarrow> (case float_of_str L s of None \<Rightarrow> Inl ValueError | Some x \<Rightarrow> Inr x)
      | _ \<Rightarrow> Inl TypeError)"

text \<open>\<^verbatim>\<open>len(v)\<close>, \<^verbatim>\<open>v[:n]\<close> for \<open>n \<ge> 0\<close>, and \<^verbatim>\<open>v + s\<close> for a string \<open>s\<close>.\<close>

definition py_len :: "json \<Rightarrow> error + nat" where
  "py_len v =
     (case v of
        JStr s \<Rightarrow> Inr (length s)
      | JArr xs \<Rightarrow> Inr (length xs)
      | JObj d \<Rightarrow> Inr (length (remdups (map fst d)))
      | _ \<Rightarrow> Inl TypeError)"

definition py_slice_to :: "json \<Rightarrow> nat \<Rightarrow> error + json" where
  "py_slice_to v n =
     (case v of
        JStr s \<Rightarrow> Inr (JStr (take n s))
      | JArr xs \<Rightarrow> Inr (JArr (take n xs))
      | _ \<Rightarrow> Inl TypeError)"

definition py_add_str :: "json \<Rightarrow> pystr \<Rightarrow> error + json" where
  "py_add_str v s = (case v of JStr t \<Rightarrow> Inr (JStr (t @ s)) | _ \<Rightarrow> Inl TypeError)"

text \<open>Iterating over a value in a \<^verbatim>\<open>for\<close> loop.\<close>

definition py_iter :: "json \<Rightarrow> error + json list" where
  "py_iter v =
     (case v of
        JArr xs \<Rightarrow> Inr xs
      | JStr s \<Rightarrow> Inr (map (\<lambda>c. JStr [c]) s)
      | JObj d \<Rightarrow> Inr (map JStr (remdups (map fst d)))
      | _ \<Rightarrow> Inl TypeError)"

text \<open>String tests: \<^verbatim>\<open>startswith\<close>, \<^verbatim>\<open>endswith\<close>, \<^verbatim>\<open>p in s\<close>, and the order
  \<^verbatim>\<open>a < b\<close> of two strings, which compares code points from the left.\<close>

definition startswith :: "pystr \<Rightarrow> pystr \<Rightarrow> bool" where
  "startswith s p = (take (length p) s = p)"

definition endswith :: "pystr \<Rightarrow> pystr \<Rightarrow> bool" where
  "endswith s p = (length p \<le> length s \<and> drop (length s - length p) s = p)"

fun contains :: "pystr \<Rightarrow> pystr \<Rightarrow> bool" where
  "contains p [] = (p = [])"
| "contains p (c # cs) = (startswith (c # cs) p \<or> contains p cs)"

fun str_less :: "pystr \<Rightarrow> pystr \<Rightarrow> bool" where
  "str_less [] [] = False"
| "str_less [] (y # ys) = True"
| "str_less (x # xs) [] = False"
| "str_less (x # xs) (y # ys) = (x < y \<or> (x = y \<and> str_less xs ys))"

section \<open>Selecting the best event\<close>

text \<open>The expression \<^verbatim>\<open>float(e.get(key, 0) or 0)\<close>, which the source writes out for
  \<^verbatim>\<open>volume\<close> and \<^verbatim>\<open>liquidity\<close>.\<close>

definition float_field :: "pylib \<Rightarrow> pystr \<Rightarrow> pydict \<Rightarrow> error + pyfloat" where
  "float_field L key e = py_float L (py_or (dict_get_or e key (JInt 0)) (JInt 0))"

text \<open>
  \<^verbatim>\<open>list.sort(key=f, reverse=True)\<close> first computes the key of every element, in order,
  and an exception of \<open>f\<close> leaves the sort. The keys here are floats. When none of them is
  NaN, \<^verbatim>\<open><\<close> orders them and the sort, which is stable, is determined: the elements stand
  by decreasing key, those of equal key in their original order. \<open>stable_sort_desc\<close> is
  that list, built by insertion from the right, where an element goes in front of the
  first one whose key is not greater than its own. When a key is NaN, the list that comes
  out depends on which comparisons the sorting algorithm makes; it is the component
  \<open>sort_unordered\<close> of the runtime.
\<close>

fun eval_keys :: "('a \<Rightarrow> error + pyfloat) \<Rightarrow> 'a list \<Rightarrow> error + (pyfloat \<times> 'a) list" where
  "eval_keys f [] = Inr []"
| "eval_keys f (x # xs) =
     (case f x of
        Inl err \<Rightarrow> Inl err
      | Inr k \<Rightarrow> (case eval_keys f xs of Inl err \<Rightarrow> Inl err | Inr ks \<Rightarrow> Inr ((k, x) # ks)))"

fun insert_desc :: "pyfloat \<times> 'a \<Rightarrow> (pyfloat \<times> 'a) list \<Rightarrow> (pyfloat \<times> 'a) list" where
  "insert_desc x [] = [x]"
| "insert_desc x (y # ys) =
     (if fl_less (fst x) (fst y) then y # insert_desc x ys else x # y # ys)"

definition stable_sort_desc :: "(pyfloat \<times> 'a) list \<Rightarrow> (pyfloat \<times> 'a) list" where
  "stable_sort_desc ks = foldr insert_desc ks []"

definition sort_reverse ::
  "pylib \<Rightarrow> (pydict \<Rightarrow> error + pyfloat) \<Rightarrow> pydict list \<Rightarrow> error + pydict list"
where
  "sort_reverse L f xs =
     (case eval_keys f xs of
        Inl err \<Rightarrow> Inl err
      | Inr ks \<Rightarrow>
          Inr (map snd (if list_ex (\<lambda>p. fst p = NaN) ks then sort_unordered L ks
                        else stable_sort_desc ks)))"

text \<open>\<^verbatim>\<open>find_best_event\<close>. The sort is in place; only the returned event is modelled.\<close>

definition find_best_event :: "pylib \<Rightarrow> pydict list \<Rightarrow> error + pydict option" where
  "find_best_event L events =
     (if events = [] then Inr None
      else (case sort_reverse L (float_field L (U ''volume'')) events of
              Inl err \<Rightarrow> Inl err
            | Inr [] \<Rightarrow> Inl IndexError
            | Inr (best # _) \<Rightarrow> Inr (Some best)))"

section \<open>Filters\<close>

definition SPORTS_SERIES :: "pystr list" where
  "SPORTS_SERIES =
     [U ''nba'', U ''nfl'', U ''nhl'', U ''mlb'', U ''mls'', U ''wnba'',
      U ''nba-2026'', U ''nfl-2025'', U ''nhl-2026'', U ''cfb'', U ''cfb-2025'',
      U ''premier-league'', U ''premier-league-2025'', U ''bundesliga'', U ''bundesliga-2025'',
      U ''la-liga'', U ''serie-a'', U ''ligue-1'', U ''champions-league'', U ''europa-league'',
      U ''ucl-2025'', U ''uel-2025'']"

definition slug_keywords :: "pystr list" where
  "slug_keywords =
     [U ''nba'', U ''nfl'', U ''nhl'', U ''mlb'', U ''soccer'', U ''football'', U ''basketball'']"

definition sports_patterns :: "pystr list" where
  "sports_patterns =
     [U '' vs '', U '' vs. '', U ''o/u '', U ''spread:'', U ''moneyline'', U ''over/under'']"

text \<open>\<^verbatim>\<open>(d.get(key) or "").lower()\<close>: a true value that is not a string has no
  \<^verbatim>\<open>lower\<close>.\<close>

definition lower_field :: "pylib \<Rightarrow> pydict \<Rightarrow> pystr \<Rightarrow> error + pystr" where
  "lower_field L d key =
     (case py_or (dict_get d key) (JStr []) of
        JStr s \<Rightarrow> Inr (str_lower L s)
      | _ \<Rightarrow> Inl AttributeError)"

text \<open>The loop over \<^verbatim>\<open>series\<close> of \<^verbatim>\<open>is_sports_event\<close>: \<open>Inr True\<close> when it returns
  \<^verbatim>\<open>True\<close> from inside, \<open>Inr False\<close> when it runs to its end. An element that is not a
  dictionary has no \<^verbatim>\<open>get\<close>.\<close>

fun series_loop :: "pylib \<Rightarrow> json list \<Rightarrow> error + bool" where
  "series_loop L [] = Inr False"
| "series_loop L (s # rest) =
     (case s of
        JObj d \<Rightarrow>
          (case lower_field L d (U ''slug'') of
             Inl err \<Rightarrow> Inl err
           | Inr slug \<Rightarrow>
               if slug \<in> set SPORTS_SERIES then Inr True
               else if list_ex (\<lambda>x. contains x slug) slug_keywords then Inr True
               else series_loop L rest)
      | _ \<Rightarrow> Inl AttributeError)"

definition is_sports_event :: "pylib \<Rightarrow> pydict \<Rightarrow> error + bool" where
  "is_sports_event L event =
     (case py_iter (dict_get_or event (U ''series'') (JArr [])) of
        Inl err \<Rightarrow> Inl err
      | Inr series \<Rightarrow>
          (case series_loop L series of
             Inl err \<Rightarrow> Inl err
           | Inr True \<Rightarrow> Inr True
           | Inr False \<Rightarrow>
               (case lower_field L event (U ''title'') of
                  Inl err \<Rightarrow> Inl err
                | Inr title \<Rightarrow> Inr (list_ex (\<lambda>p. contains p title) sports_patterns))))"

definition is_crypto_spam :: "pylib \<Rightarrow> pydict \<Rightarrow> error + bool" where
  "is_crypto_spam L event =
     (case lower_field L event (U ''title'') of
        Inl err \<Rightarrow> Inl err
      | Inr title \<Rightarrow> Inr (contains (U ''up or down'') title))"

text \<open>
  \<^verbatim>\<open>is_expired\<close>. \<open>now\<close> is the reading of \<^verbatim>\<open>datetime.now(timezone.utc)\<close>, an instant
  in microseconds since the epoch. The body of the \<^verbatim>\<open>try\<close> is \<open>is_expired_try\<close>: a
  value without \<^verbatim>\<open>endswith\<close> raises AttributeError, a string that
  \<^verbatim>\<open>fromisoformat\<close> rejects raises ValueError, and comparing a datetime without
  offset to the aware \<open>now\<close> raises TypeError. \<^verbatim>\<open>except Exception\<close> turns each into
  \<^verbatim>\<open>False\<close>.
\<close>

definition is_expired_try :: "pylib \<Rightarrow> int \<Rightarrow> json \<Rightarrow> error + bool" where
  "is_expired_try L now end_date =
     (case end_date of
        JStr s \<Rightarrow>
          (let s' = (if endswith s (U ''Z'') then butlast s @ U ''+00:00'' else s)
           in case fromisoformat L s' of
                None \<Rightarrow> Inl ValueError
              | Some (Aware end_dt) \<Rightarrow> Inr (end_dt < now)
              | Some (Naive end_dt) \<Rightarrow> Inl TypeError)
      | _ \<Rightarrow> Inl AttributeError)"

definition is_expired :: "pylib \<Rightarrow> int \<Rightarrow> pydict \<Rightarrow> bool" where
  "is_expired L now event =
     (let end_date = dict_get event (U ''endDate'')
      in if \<not> truthy end_date then False
         else (case is_expired_try L now end_date of Inl err \<Rightarrow> False | Inr b \<Rightarrow> b))"

text \<open>The bot's state, the dictionary of \<^verbatim>\<open>bot_state.json\<close>. A key can be absent from a
  file written by hand, which \<^verbatim>\<open>state.get(key, default)\<close> covers.\<close>

record state =
  tweeted_event_ids :: "pystr list option"
  total_tweets_sent :: "int option"
  last_poll_time :: "pystr option"

text \<open>\<^verbatim>\<open>state.get("tweeted_event_ids", [])\<close>.\<close>

definition tweeted_ids_of :: "state \<Rightarrow> pystr list" where
  "tweeted_ids_of st = (case tweeted_event_ids st of None \<Rightarrow> [] | Some ids \<Rightarrow> ids)"

definition MIN_VOLUME :: int where
  "MIN_VOLUME = 0"

definition event_id_of :: "pylib \<Rightarrow> pydict \<Rightarrow> pystr" where
  "event_id_of L event = py_str L (dict_get_or event (U ''id'') (JStr []))"

text \<open>The argument \<^verbatim>\<open>event.get('title', '')[:40]\<close> of a debug message is evaluated
  whether or not the message is printed, and raises when the title cannot be sliced.\<close>

definition debug_title :: "pydict \<Rightarrow> nat \<Rightarrow> error + json" where
  "debug_title event n = py_slice_to (dict_get_or event (U ''title'') (JStr [])) n"

text \<open>
  \<^verbatim>\<open>filter_events\<close>: the loop with its accumulator \<^verbatim>\<open>filtered\<close>. The threshold
  \<^verbatim>\<open>MIN_VOLUME\<close> of the module, an integer, is the parameter \<open>min_volume\<close>.
\<close>

fun filter_loop ::
  "pylib \<Rightarrow> int \<Rightarrow> int \<Rightarrow> pystr set \<Rightarrow> pydict list \<Rightarrow> pydict list \<Rightarrow> error + pydict list"
where
  "filter_loop L now min_volume tweeted_ids [] filtered = Inr filtered"
| "filter_loop L now min_volume tweeted_ids (event # rest) filtered =
     (if event_id_of L event \<in> tweeted_ids
      then filter_loop L now min_volume tweeted_ids rest filtered
      else (case is_sports_event L event of
              Inl err \<Rightarrow> Inl err
            | Inr True \<Rightarrow>
                (case debug_title event 40 of
                   Inl err \<Rightarrow> Inl err
                 | Inr _ \<Rightarrow> filter_loop L now min_volume tweeted_ids rest filtered)
            | Inr False \<Rightarrow>
                (case is_crypto_spam L event of
                   Inl err \<Rightarrow> Inl err
                 | Inr True \<Rightarrow>
                     (case debug_title event 40 of
                        Inl err \<Rightarrow> Inl err
                      | Inr _ \<Rightarrow> filter_loop L now min_volume tweeted_ids rest filtered)
                 | Inr False \<Rightarrow>
                     if is_expired L now event
                     then (case debug_title event 40 of
                             Inl err \<Rightarrow> Inl err
                           | Inr _ \<Rightarrow> filter_loop L now min_volume tweeted_ids rest filtered)
                     else (case float_field L (U ''volume'') event of
                             Inl err \<Rightarrow> Inl err
                           | Inr volume \<Rightarrow>
                               if fl_less volume (Finite (of_int min_volume))
                               then (case debug_title event 40 of
                                       Inl err \<Rightarrow> Inl err
                                     | Inr _ \<Rightarrow>
                                         filter_loop L now min_volume tweeted_ids rest filtered)
                               else filter_loop L now min_volume tweeted_ids rest
                                      (filtered @ [event])))))"

definition filter_events ::
  "pylib \<Rightarrow> int \<Rightarrow> int \<Rightarrow> pydict list \<Rightarrow> state \<Rightarrow> error + pydict list"
where
  "filter_events L now min_volume events st =
     (let tweeted_ids = set (tweeted_ids_of st)
      in filter_loop L now min_volume tweeted_ids events [])"

section \<open>Formatting the tweet\<close>

definition format_number :: "pylib \<Rightarrow> pyfloat \<Rightarrow> pystr" where
  "format_number L num =
     (if fl_le (Finite 1000000) num
      then U ''$'' @ format_fixed L 1 (fl_div num 1000000) @ U ''M''
      else if fl_le (Finite 1000) num
      then U ''$'' @ format_fixed L 0 (fl_div num 1000) @ U ''K''
      else U ''$'' @ format_fixed L 0 num)"

text \<open>The two call-to-action lines; the first code point of each is U+1F52E.\<close>

definition FOOTER_WAITLIST :: pystr where
  "FOOTER_WAITLIST = 128302 # U '' Join @4Castylabs waitlist now: www.4casty.com''"

definition FOOTER_TERMINAL :: pystr where
  "FOOTER_TERMINAL = 128302 # U '' Join 4Casty Terminal waitlist: www.4casty.com''"

text \<open>The f-string of the tweet, which the source writes twice with a different last line.
  The code points 128680, 128202, 128176 and 128073 are the four pictographs, 10 is the
  line feed.\<close>

definition render_tweet :: "pystr \<Rightarrow> pystr \<Rightarrow> pystr \<Rightarrow> pystr \<Rightarrow> pystr \<Rightarrow> pystr" where
  "render_tweet footer title vol_str liq_str url =
     (128680 # U '' New Polymarket Event!'') @ [10, 10]
     @ title @ [10, 10]
     @ (128202 # U '' Volume: '') @ vol_str @ [10]
     @ (128176 # U '' Liquidity: '') @ liq_str @ [10, 10]
     @ U ''Trade '' @ [128073] @ U '' '' @ url @ [10, 10]
     @ footer"

definition format_tweet :: "pylib \<Rightarrow> pydict \<Rightarrow> error + pystr" where
  "format_tweet L event =
     (let title = py_or (dict_get event (U ''title'')) (JStr (U ''New Event''));
          slug = py_or (dict_get event (U ''slug'')) (dict_get event (U ''id''));
          url = U ''https://polymarket.com/event/'' @ py_str L slug
      in case float_field L (U ''volume'') event of
           Inl err \<Rightarrow> Inl err
         | Inr volume \<Rightarrow>
        (case float_field L (U ''liquidity'') event of
           Inl err \<Rightarrow> Inl err
         | Inr liquidity \<Rightarrow>
        (let vol_str = format_number L volume;
             liq_str = format_number L liquidity;
             tweet = render_tweet FOOTER_WAITLIST (py_str L title) vol_str liq_str url
         in if length tweet > 280
            then (case py_len title of
                    Inl err \<Rightarrow> Inl err
                  | Inr title_len \<Rightarrow>
                 (let max_title_len = int title_len - (int (length tweet) - 280) - 3
                  in if max_title_len > 20
                     then (case py_slice_to title (nat max_title_len) of
                             Inl err \<Rightarrow> Inl err
                           | Inr shortened \<Rightarrow>
                          (case py_add_str shortened (U ''...'') of
                             Inl err \<Rightarrow> Inl err
                           | Inr title' \<Rightarrow>
                               Inr (take 280
                                     (render_tweet FOOTER_TERMINAL (py_str L title')
                                        vol_str liq_str url))))
                     else Inr (take 280 tweet)))
            else Inr (take 280 tweet))))"

section \<open>Image, publisher\<close>

fun first_image_url :: "pydict \<Rightarrow> pystr list \<Rightarrow> pystr option" where
  "first_image_url event [] = None"
| "first_image_url event (field # others) =
     (case dict_get event field of
        JStr url \<Rightarrow>
          if url \<noteq> [] \<and> startswith url (U ''http'') then Some url
          else first_image_url event others
      | _ \<Rightarrow> first_image_url event others)"

definition get_event_image_url :: "pydict \<Rightarrow> pystr option" where
  "get_event_image_url event = first_image_url event [U ''image'', U ''coverImage'', U ''icon'']"

text \<open>
  What the calls to the platform inside the \<^verbatim>\<open>try\<close> of \<^verbatim>\<open>send_tweet_with_image\<close>
  come to: the tweet is created, or one of the three handlers is entered. A failed image
  download or upload is not among them, since both helpers return \<^verbatim>\<open>None\<close> instead of
  raising. \<open>v2_client\<close> says whether a client exists. The pause of 15 minutes after a rate
  limit is not modelled.
\<close>

datatype api_outcome = Created | TooManyRequests | TwitterServerError | OtherException

definition send_tweet_with_image :: "bool \<Rightarrow> api_outcome \<Rightarrow> pystr \<Rightarrow> pystr option \<Rightarrow> bool" where
  "send_tweet_with_image v2_client outcome text image_url =
     (if \<not> v2_client then True
      else (case outcome of
              Created \<Rightarrow> True
            | TooManyRequests \<Rightarrow> False
            | TwitterServerError \<Rightarrow> False
            | OtherException \<Rightarrow> False))"

section \<open>Time\<close>

text \<open>
  A \<^verbatim>\<open>datetime\<close> in UTC is its number of microseconds since 1970-01-01T00:00:00.
  \<open>civil_from_days\<close> is the proleptic Gregorian date of a day number and
  \<open>days_from_civil\<close> its inverse.
\<close>

definition civil_from_days :: "int \<Rightarrow> int \<times> int \<times> int" where
  "civil_from_days z =
     (let z' = z + 719468;
          era = z' div 146097;
          doe = z' - era * 146097;
          yoe = (doe - doe div 1460 + doe div 36524 - doe div 146096) div 365;
          doy = doe - (365 * yoe + yoe div 4 - yoe div 100);
          mp = (5 * doy + 2) div 153;
          d = doy - (153 * mp + 2) div 5 + 1;
          m = (if mp < 10 then mp + 3 else mp - 9);
          y = yoe + era * 400
      in (if m \<le> 2 then y + 1 else y, m, d))"

definition days_from_civil :: "int \<Rightarrow> int \<Rightarrow> int \<Rightarrow> int" where
  "days_from_civil y m d =
     (let y' = (if m \<le> 2 then y - 1 else y);
          era = y' div 400;
          yoe = y' - era * 400;
          doy = (153 * (if m > 2 then m - 3 else m + 9) + 2) div 5 + d - 1;
          doe = yoe * 365 + yoe div 4 - yoe div 100 + doy
      in era * 146097 + doe - 719468)"

definition pad :: "nat \<Rightarrow> int \<Rightarrow> pystr" where
  "pad w n = (let ds = nat_to_dec (nat n) in replicate (w - length ds) 48 @ ds)"

text \<open>\<^verbatim>\<open>strftime("%Y-%m-%dT%H:%M:%SZ")\<close>; the C library prints \<^verbatim>\<open>%Y\<close> without
  leading zeros. The microseconds are dropped.\<close>

definition strftime_cutoff :: "int \<Rightarrow> pystr" where
  "strftime_cutoff t =
     (let secs = (t div 1000000) mod 86400
      in case civil_from_days (t div 86400000000) of (y, m, d) \<Rightarrow>
           nat_to_dec (nat y) @ U ''-'' @ pad 2 m @ U ''-'' @ pad 2 d @ U ''T''
           @ pad 2 (secs div 3600) @ U '':'' @ pad 2 (secs div 60 mod 60) @ U '':''
           @ pad 2 (secs mod 60) @ U ''Z'')"

text \<open>\<^verbatim>\<open>isoformat()\<close> of an aware UTC datetime.\<close>

definition isoformat :: "int \<Rightarrow> pystr" where
  "isoformat t =
     (let secs = (t div 1000000) mod 86400; us = t mod 1000000
      in case civil_from_days (t div 86400000000) of (y, m, d) \<Rightarrow>
           pad 4 y @ U ''-'' @ pad 2 m @ U ''-'' @ pad 2 d @ U ''T''
           @ pad 2 (secs div 3600) @ U '':'' @ pad 2 (secs div 60 mod 60) @ U '':''
           @ pad 2 (secs mod 60) @ (if us = 0 then [] else U ''.'' @ pad 6 us)
           @ U ''+00:00'')"

text \<open>The range of \<^verbatim>\<open>datetime\<close>, years 1 to 9999; leaving it is an OverflowError.\<close>

definition DATETIME_MIN :: int where
  "DATETIME_MIN = - 62135596800000000"

definition DATETIME_MAX :: int where
  "DATETIME_MAX = 253402300799999999"

definition minus_minutes :: "int \<Rightarrow> int \<Rightarrow> error + int" where
  "minus_minutes now minutes =
     (let t = now - minutes * 60000000
      in if DATETIME_MIN \<le> t \<and> t \<le> DATETIME_MAX then Inr t else Inl OverflowError)"

section \<open>Fetching the recent events\<close>

definition LOOKBACK_MINUTES :: int where
  "LOOKBACK_MINUTES = 10"

text \<open>
  The loop of \<^verbatim>\<open>fetch_recent_events\<close> over the decoded response, with its accumulator
  \<^verbatim>\<open>recent\<close>. An element that is not a dictionary has no \<^verbatim>\<open>get\<close>, and
  \<^verbatim>\<open>>=\<close> between a value that is not a string and the cutoff string is a TypeError.
\<close>

fun scan_recent :: "pystr \<Rightarrow> json list \<Rightarrow> pydict list \<Rightarrow> error + pydict list" where
  "scan_recent cutoff_str [] recent = Inr recent"
| "scan_recent cutoff_str (event # rest) recent =
     (case event of
        JObj d \<Rightarrow>
          (case dict_get_or d (U ''createdAt'') (JStr []) of
             JStr created_at \<Rightarrow>
               if \<not> str_less created_at cutoff_str
               then scan_recent cutoff_str rest (recent @ [d])
               else Inr recent
           | _ \<Rightarrow> Inl TypeError)
      | _ \<Rightarrow> Inl AttributeError)"

text \<open>
  \<open>response\<close> is what the request and \<^verbatim>\<open>json.loads\<close> come to: an exception or the
  decoded value. The cutoff is computed before the \<^verbatim>\<open>try\<close>, so an exception there
  reaches the caller; every exception inside is answered by the empty list.
\<close>

definition fetch_recent_events :: "int \<Rightarrow> int \<Rightarrow> error + json \<Rightarrow> error + pydict list" where
  "fetch_recent_events now lookback_minutes response =
     (case minus_minutes now lookback_minutes of
        Inl err \<Rightarrow> Inl err
      | Inr cutoff \<Rightarrow>
          (let cutoff_str = strftime_cutoff cutoff
           in case response of
                Inl err \<Rightarrow> Inr []
              | Inr (JArr events) \<Rightarrow>
                  (case scan_recent cutoff_str events [] of
                     Inl err \<Rightarrow> Inr []
                   | Inr recent \<Rightarrow> Inr recent)
              | Inr _ \<Rightarrow> Inr []))"

section \<open>One polling iteration\<close>

text \<open>
  \<^verbatim>\<open>run_once\<close> returns the new state; the model returns with it the publish attempt of
  the iteration, if there was one: the text, the image URL and the result of
  \<^verbatim>\<open>send_tweet_with_image\<close>. The clock is read once, as \<open>now\<close>. Writing the state
  file is not modelled.
\<close>

type_synonym attempt = "pystr \<times> pystr option \<times> bool"

definition keep_last :: "nat \<Rightarrow> 'a list \<Rightarrow> 'a list" where
  "keep_last n xs = drop (length xs - n) xs"

definition mark_tweeted :: "state \<Rightarrow> pystr \<Rightarrow> state" where
  "mark_tweeted st event_id =
     (let tweeted_ids = tweeted_ids_of st @ [event_id]
      in st\<lparr>tweeted_event_ids := Some (keep_last 500 tweeted_ids),
            total_tweets_sent :=
              Some ((case total_tweets_sent st of None \<Rightarrow> 0 | Some n \<Rightarrow> n) + 1)\<rparr>)"

definition run_once ::
  "pylib \<Rightarrow> int \<Rightarrow> bool \<Rightarrow> error + json \<Rightarrow> api_outcome \<Rightarrow> state \<Rightarrow> error + state \<times> attempt option"
where
  "run_once L now v2_client response outcome st =
     (case fetch_recent_events now LOOKBACK_MINUTES response of
        Inl err \<Rightarrow> Inl err
      | Inr events \<Rightarrow>
     if events = [] then Inr (st\<lparr>last_poll_time := Some (isoformat now)\<rparr>, None)
     else
     (case filter_events L now MIN_VOLUME events st of
        Inl err \<Rightarrow> Inl err
      | Inr quality_events \<Rightarrow>
     if quality_events = [] then Inr (st\<lparr>last_poll_time := Some (isoformat now)\<rparr>, None)
     else
     (case find_best_event L quality_events of
        Inl err \<Rightarrow> Inl err
      | Inr None \<Rightarrow> Inr (st, None)
      | Inr (Some best_event) \<Rightarrow>
     if best_event = [] then Inr (st, None)
     else
     (let event_id = event_id_of L best_event
      in case debug_title best_event 50 of
           Inl err \<Rightarrow> Inl err
         | Inr title \<Rightarrow>
        (case float_field L (U ''volume'') best_event of
           Inl err \<Rightarrow> Inl err
         | Inr volume \<Rightarrow>
        (let image_url = get_event_image_url best_event
         in case format_tweet L best_event of
              Inl err \<Rightarrow> Inl err
            | Inr tweet_text \<Rightarrow>
           (let success = send_tweet_with_image v2_client outcome tweet_text image_url;
                st' = (if success then mark_tweeted st event_id else st)
            in Inr (st'\<lparr>last_poll_time := Some (isoformat now)\<rparr>,
                    Some (tweet_text, image_url, success)))))))))"

section \<open>A runtime for concrete evaluation\<close>

text \<open>
  An instance of the runtime record on which the model can be run. \<^verbatim>\<open>float\<close> reads what
  Python reads of an ASCII string: blanks around it, a sign, \<^verbatim>\<open>inf\<close>, \<^verbatim>\<open>infinity\<close> and
  \<^verbatim>\<open>nan\<close> in either case, digits with a fraction and an exponent, underscores between
  digits; the value is rounded to binary64. Python reads the digits and blanks beyond
  ASCII as well. \<^verbatim>\<open>:.Nf\<close> rounds the exact value of the float, ties to even.
  \<^verbatim>\<open>lower\<close> changes the letters A to Z only. \<^verbatim>\<open>fromisoformat\<close> reads
  \<^verbatim>\<open>YYYY-MM-DD\<close>, optionally followed by \<^verbatim>\<open>THH:MM:SS\<close>, a fraction of three or six
  digits and an offset \<^verbatim>\<open>+HH:MM\<close> or \<^verbatim>\<open>-HH:MM\<close>, and rejects every other string.
  \<^verbatim>\<open>str\<close> of a float, a list or a dictionary is not spelled out and prints a question
  mark.
\<close>

definition is_digit :: "nat \<Rightarrow> bool" where
  "is_digit c = (48 \<le> c \<and> c \<le> 57)"

definition digits_val :: "pystr \<Rightarrow> nat" where
  "digits_val ds = foldl (\<lambda>acc c. 10 * acc + (c - 48)) 0 ds"

definition ascii_lower :: "pystr \<Rightarrow> pystr" where
  "ascii_lower s = map (\<lambda>c. if 65 \<le> c \<and> c \<le> 90 then c + 32 else c) s"

definition is_space :: "nat \<Rightarrow> bool" where
  "is_space c = (c = 32 \<or> (9 \<le> c \<and> c \<le> 13))"

definition strip_spaces :: "pystr \<Rightarrow> pystr" where
  "strip_spaces s = rev (dropWhile is_space (rev (dropWhile is_space s)))"

text \<open>An underscore needs a digit on either side; \<open>prev\<close> is the character before.\<close>

fun underscores_ok :: "nat \<Rightarrow> pystr \<Rightarrow> bool" where
  "underscores_ok prev [] = (prev \<noteq> 95)"
| "underscores_ok prev (c # cs) =
     ((if c = 95 then is_digit prev else if prev = 95 then is_digit c else True)
      \<and> underscores_ok c cs)"

definition parse_exponent :: "pystr \<Rightarrow> int option" where
  "parse_exponent s =
     (let ds = (if s \<noteq> [] \<and> (hd s = 45 \<or> hd s = 43) then tl s else s)
      in if ds \<noteq> [] \<and> list_all is_digit ds
         then Some ((if hd s = 45 then - 1 else 1) * int (digits_val ds))
         else None)"

definition signed_float :: "bool \<Rightarrow> rat \<Rightarrow> pyfloat" where
  "signed_float neg m =
     (if m = 0 then (if neg then NegZero else Finite 0)
      else round_binary64 (if neg then - m else m))"

definition dec_float_of_str :: "pystr \<Rightarrow> pyfloat option" where
  "dec_float_of_str s =
     (let t = strip_spaces s;
          neg = (t \<noteq> [] \<and> hd t = 45);
          body = (if t \<noteq> [] \<and> (hd t = 45 \<or> hd t = 43) then tl t else t);
          word = ascii_lower body
      in if word = U ''inf'' \<or> word = U ''infinity'' then Some (if neg then NegInf else PosInf)
         else if word = U ''nan'' then Some NaN
         else if \<not> underscores_ok 0 t then None
         else (let digits = filter (\<lambda>c. c \<noteq> 95) body;
                   ip = takeWhile is_digit digits;
                   r1 = dropWhile is_digit digits;
                   r2 = (if r1 \<noteq> [] \<and> hd r1 = 46 then tl r1 else r1);
                   fp = takeWhile is_digit r2;
                   r3 = dropWhile is_digit r2;
                   mant = of_nat (digits_val (ip @ fp)) / 10 ^ length fp
               in if ip = [] \<and> fp = [] then None
                  else if r3 = [] then Some (signed_float neg mant)
                  else if hd r3 = 101 \<or> hd r3 = 69
                  then (case parse_exponent (tl r3) of
                          None \<Rightarrow> None
                        | Some ex \<Rightarrow>
                            Some (signed_float neg
                                    (if 0 \<le> ex then mant * 10 ^ nat ex
                                     else mant / 10 ^ nat (- ex))))
                  else None))"

text \<open>The digits of a rational that is not negative, rounded to \<open>n\<close> decimals.\<close>

definition fixed_digits :: "nat \<Rightarrow> rat \<Rightarrow> pystr" where
  "fixed_digits n r =
     (let ds = nat_to_dec (nat (round_half_even (r * 10 ^ n)));
          ds' = replicate (n + 1 - length ds) 48 @ ds;
          k = length ds' - n
      in if n = 0 then ds' else take k ds' @ U ''.'' @ drop k ds')"

definition dec_format_fixed :: "nat \<Rightarrow> pyfloat \<Rightarrow> pystr" where
  "dec_format_fixed n x =
     (case x of
        Finite r \<Rightarrow> (if r < 0 then 45 # fixed_digits n (- r) else fixed_digits n r)
      | NegZero \<Rightarrow> 45 # fixed_digits n 0
      | PosInf \<Rightarrow> U ''inf''
      | NegInf \<Rightarrow> U ''-inf''
      | NaN \<Rightarrow> U ''nan'')"

text \<open>
  The sort of CPython 3.11 on a list of fewer than 64 elements, with \<^verbatim>\<open><\<close> on the keys
  as its only comparison: the run at the start of the list is found, reversed if it
  descends, and each further element is inserted into it at the place a binary search
  gives. \<^verbatim>\<open>reverse=True\<close> reverses the list before and after. On longer lists CPython
  merges several such runs.
\<close>

fun run_length :: "bool \<Rightarrow> pyfloat \<Rightarrow> (pyfloat \<times> 'a) list \<Rightarrow> nat" where
  "run_length descending prev [] = 0"
| "run_length descending prev (x # xs) =
     (if fl_less (fst x) prev = descending then Suc (run_length descending (fst x) xs) else 0)"

definition count_run :: "(pyfloat \<times> 'a) list \<Rightarrow> nat \<times> bool" where
  "count_run a =
     (case a of
        [] \<Rightarrow> (0, False)
      | [x] \<Rightarrow> (1, False)
      | x # y # rest \<Rightarrow>
          (let descending = fl_less (fst y) (fst x)
           in (2 + run_length descending (fst y) rest, descending)))"

function bisect :: "pyfloat \<Rightarrow> (pyfloat \<times> 'a) list \<Rightarrow> nat \<Rightarrow> nat \<Rightarrow> nat" where
  "bisect pivot a l r =
     (if l < r
      then (let p = l + (r - l) div 2
            in if fl_less pivot (fst (a ! p)) then bisect pivot a l p
               else bisect pivot a (p + 1) r)
      else l)"
  by pat_completeness auto

termination
  by (relation "measure (\<lambda>(pivot, a, l, r). r - l)") auto

declare bisect.simps [simp del]

definition binary_insert :: "(pyfloat \<times> 'a) list \<Rightarrow> pyfloat \<times> 'a \<Rightarrow> (pyfloat \<times> 'a) list" where
  "binary_insert a x = (let l = bisect (fst x) a 0 (length a) in take l a @ [x] @ drop l a)"

definition short_list_sort :: "(pyfloat \<times> 'a) list \<Rightarrow> (pyfloat \<times> 'a) list" where
  "short_list_sort a =
     (case count_run a of
        (n, descending) \<Rightarrow>
          foldl binary_insert (if descending then rev (take n a) else take n a) (drop n a))"

definition short_list_sort_reverse :: "(pyfloat \<times> 'a) list \<Rightarrow> (pyfloat \<times> 'a) list" where
  "short_list_sort_reverse a = rev (short_list_sort (rev a))"

definition number_of :: "nat \<Rightarrow> pystr \<Rightarrow> int option" where
  "number_of w s =
     (if length s = w \<and> list_all is_digit s then Some (int (digits_val s)) else None)"

definition days_in_month :: "int \<Rightarrow> int \<Rightarrow> int" where
  "days_in_month y m =
     (if m = 2 then (if y mod 4 = 0 \<and> (y mod 100 \<noteq> 0 \<or> y mod 400 = 0) then 29 else 28)
      else if m = 4 \<or> m = 6 \<or> m = 9 \<or> m = 11 then 30 else 31)"

text \<open>\<^verbatim>\<open>YYYY-MM-DD\<close> to the day number.\<close>

definition parse_iso_date :: "pystr \<Rightarrow> int option" where
  "parse_iso_date s =
     (if length s = 10 \<and> s ! 4 = 45 \<and> s ! 7 = 45
      then (case (number_of 4 (take 4 s), number_of 2 (take 2 (drop 5 s)),
                  number_of 2 (drop 8 s)) of
              (Some y, Some m, Some d) \<Rightarrow>
                if 1 \<le> y \<and> 1 \<le> m \<and> m \<le> 12 \<and> 1 \<le> d \<and> d \<le> days_in_month y m
                then Some (days_from_civil y m d) else None
            | _ \<Rightarrow> None)
      else None)"

text \<open>\<^verbatim>\<open>HH:MM:SS\<close>, \<^verbatim>\<open>HH:MM:SS.fff\<close> or \<^verbatim>\<open>HH:MM:SS.ffffff\<close> to the microsecond of
  the day.\<close>

definition parse_iso_time :: "pystr \<Rightarrow> int option" where
  "parse_iso_time s =
     (if length s \<ge> 8 \<and> s ! 2 = 58 \<and> s ! 5 = 58
      then (case (number_of 2 (take 2 s), number_of 2 (take 2 (drop 3 s)),
                  number_of 2 (take 2 (drop 6 s))) of
              (Some h, Some mi, Some sec) \<Rightarrow>
                if h < 24 \<and> mi < 60 \<and> sec < 60
                then (let whole = ((h * 60 + mi) * 60 + sec) * 1000000; frac = drop 8 s
                      in if frac = [] then Some whole
                         else if hd frac = 46
                         then (case (number_of 3 (tl frac), number_of 6 (tl frac)) of
                                 (Some ms, _) \<Rightarrow> Some (whole + ms * 1000)
                               | (None, Some us) \<Rightarrow> Some (whole + us)
                               | _ \<Rightarrow> None)
                         else None)
                else None
            | _ \<Rightarrow> None)
      else None)"

text \<open>\<^verbatim>\<open>+HH:MM\<close> or \<^verbatim>\<open>-HH:MM\<close> to microseconds east of UTC.\<close>

definition parse_iso_offset :: "pystr \<Rightarrow> int option" where
  "parse_iso_offset s =
     (if length s = 6 \<and> (hd s = 43 \<or> hd s = 45) \<and> s ! 3 = 58
      then (case (number_of 2 (take 2 (drop 1 s)), number_of 2 (drop 4 s)) of
              (Some h, Some mi) \<Rightarrow>
                if h < 24 \<and> mi < 60
                then Some ((if hd s = 45 then - 1 else 1) * ((h * 60 + mi) * 60000000))
                else None
            | _ \<Rightarrow> None)
      else None)"

definition iso_fromisoformat :: "pystr \<Rightarrow> pydatetime option" where
  "iso_fromisoformat s =
     (case parse_iso_date (take 10 s) of
        None \<Rightarrow> None
      | Some days \<Rightarrow>
          (let rest = drop 10 s
           in if rest = [] then Some (Naive (days * 86400000000))
              else if hd rest \<noteq> 84 then None
              else (let body = tl rest;
                        k = length body - 6;
                        has_offset = (length body \<ge> 6 \<and> (body ! k = 43 \<or> body ! k = 45))
                    in case parse_iso_time (if has_offset then take k body else body) of
                         None \<Rightarrow> None
                       | Some us \<Rightarrow>
                           if has_offset
                           then (case parse_iso_offset (drop k body) of
                                   None \<Rightarrow> None
                                 | Some off \<Rightarrow> Some (Aware (days * 86400000000 + us - off)))
                           else Some (Naive (days * 86400000000 + us)))))"

definition core_lib :: pylib where
  "core_lib =
     \<lparr>float_of_str = dec_float_of_str,
      format_fixed = dec_format_fixed,
      repr_of = (\<lambda>v. U ''?''),
      str_lower = ascii_lower,
      fromisoformat = iso_fromisoformat,
      sort_unordered = short_list_sort_reverse\<rparr>"

section \<open>Sample inputs\<close>

text \<open>Events for the concrete evaluations: three with volumes 10, 50 and \<^verbatim>\<open>"50"\<close>, one
  without a volume, and one whose volume is the string \<^verbatim>\<open>"abc"\<close>.\<close>

definition ev_low :: pydict where
  "ev_low = [(U ''id'', JStr (U ''a'')), (U ''title'', JStr (U ''Rain'')), (U ''volume'', JInt 10)]"

definition ev_high :: pydict where
  "ev_high = [(U ''id'', JStr (U ''b'')), (U ''title'', JStr (U ''Snow'')), (U ''volume'', JInt 50)]"

definition ev_tie :: pydict where
  "ev_tie =
     [(U ''id'', JStr (U ''c'')), (U ''title'', JStr (U ''Hail'')), (U ''volume'', JStr (U ''50''))]"

definition ev_no_volume :: pydict where
  "ev_no_volume = [(U ''id'', JStr (U ''n'')), (U ''title'', JStr (U ''Fog''))]"

definition ev_unparsable :: pydict where
  "ev_unparsable =
     [(U ''id'', JStr (U ''x'')), (U ''title'', JStr (U ''Wind'')), (U ''volume'', JStr (U ''abc''))]"

text \<open>Three events of volumes 1, \<^verbatim>\<open>"nan"\<close> and 11.\<close>

definition ev_one :: pydict where
  "ev_one = [(U ''id'', JStr (U ''p'')), (U ''title'', JStr (U ''Mist'')), (U ''volume'', JInt 1)]"

definition ev_nan :: pydict where
  "ev_nan =
     [(U ''id'', JStr (U ''q'')), (U ''title'', JStr (U ''Dew'')), (U ''volume'', JStr (U ''nan''))]"

definition ev_eleven :: pydict where
  "ev_eleven =
     [(U ''id'', JStr (U ''r'')), (U ''title'', JStr (U ''Sleet'')), (U ''volume'', JInt 11)]"

text \<open>The volume as the specification reads it: a value that does not convert counts
  as 0.\<close>

definition volume_or_zero :: "pylib \<Rightarrow> pydict \<Rightarrow> pyfloat" where
  "volume_or_zero L e =
     (case float_field L (U ''volume'') e of Inl err \<Rightarrow> Finite 0 | Inr x \<Rightarrow> x)"

text \<open>A state in which the event \<^verbatim>\<open>b\<close> has been announced, a fresh state, and the
  instant 2025-01-01T12:10:00 UTC.\<close>

definition st_seen :: state where
  "st_seen =
     \<lparr>tweeted_event_ids = Some [U ''b''], total_tweets_sent = Some 1, last_poll_time = None\<rparr>"

definition st_fresh :: state where
  "st_fresh = \<lparr>tweeted_event_ids = None, total_tweets_sent = None, last_poll_time = None\<rparr>"

definition now_sample :: int where
  "now_sample = 1735733400000000"

text \<open>The condition under which the loop of \<^verbatim>\<open>filter_events\<close> appends an event: none of
  its five \<^verbatim>\<open>continue\<close> branches is taken and no check raises.\<close>

definition keeps :: "pylib \<Rightarrow> int \<Rightarrow> int \<Rightarrow> pystr set \<Rightarrow> pydict \<Rightarrow> bool" where
  "keeps L now min_volume tweeted_ids event =
     (event_id_of L event \<notin> tweeted_ids
      \<and> is_sports_event L event = Inr False
      \<and> is_crypto_spam L event = Inr False
      \<and> \<not> is_expired L now event
      \<and> (case float_field L (U ''volume'') event of
            Inl err \<Rightarrow> False
          | Inr volume \<Rightarrow> \<not> fl_less volume (Finite (of_int min_volume))))"

text \<open>Events with an end date: one that ended the day before \<open>now_sample\<close>, one that ends
  five months after it, one whose end date is not a date, one whose end date of 2020
  carries no offset, and one with the same end date marked as UTC.\<close>

definition ev_ended :: pydict where
  "ev_ended = [(U ''id'', JStr (U ''e'')), (U ''endDate'', JStr (U ''2024-12-31T00:00:00Z''))]"

definition ev_open :: pydict where
  "ev_open = [(U ''id'', JStr (U ''o'')), (U ''endDate'', JStr (U ''2025-06-01T00:00:00Z''))]"

definition ev_bad_end :: pydict where
  "ev_bad_end = [(U ''id'', JStr (U ''s'')), (U ''endDate'', JStr (U ''soon''))]"

definition ev_naive_end :: pydict where
  "ev_naive_end = [(U ''id'', JStr (U ''v'')), (U ''endDate'', JStr (U ''2020-01-01T00:00:00''))]"

definition ev_utc_end :: pydict where
  "ev_utc_end = [(U ''id'', JStr (U ''u'')), (U ''endDate'', JStr (U ''2020-01-01T00:00:00Z''))]"

text \<open>An event whose title has 300 characters, and one with a title of 25 characters and
  a slug of 250.\<close>

definition ev_long_title :: pydict where
  "ev_long_title =
     [(U ''id'', JStr (U ''l'')), (U ''title'', JStr (replicate 300 97)), (U ''volume'', JInt 10)]"


text \<open>An event created five minutes before \<open>now_sample\<close>, and a state whose list of
  announced ids is full: the oldest id is \<^verbatim>\<open>old\<close>, the 499 others are \<^verbatim>\<open>b\<close>.\<close>

definition ev_recent :: pydict where
  "ev_recent =
     [(U ''id'', JStr (U ''a'')), (U ''title'', JStr (U ''Rain'')), (U ''volume'', JInt 10),
      (U ''createdAt'', JStr (U ''2025-01-01T12:05:00Z''))]"

definition st_full :: state where
  "st_full =
     \<lparr>tweeted_event_ids = Some (U ''old'' # replicate 499 (U ''b'')),
      total_tweets_sent = Some 500, last_poll_time = None\<rparr>"

text \<open>Two events created in the second of the cutoff that belongs to \<open>now_sample\<close>, which
  is 2025-01-01T12:00:00 UTC: one at the cutoff itself, its time written without a
  fraction, and one 900 milliseconds later.\<close>

definition ev_at_cutoff :: pydict where
  "ev_at_cutoff =
     [(U ''id'', JStr (U ''k'')), (U ''title'', JStr (U ''Gale'')),
      (U ''createdAt'', JStr (U ''2025-01-01T12:00:00Z''))]"

definition ev_same_second :: pydict where
  "ev_same_second =
     [(U ''id'', JStr (U ''t'')), (U ''title'', JStr (U ''Storm'')),
      (U ''createdAt'', JStr (U ''2025-01-01T12:00:00.900Z''))]"

section \<open>Properties of the selection\<close>

lemma eval_keys_total:
  "\<forall>x\<in>set xs. f x = Inr (k x) \<Longrightarrow> eval_keys f xs = Inr (map (\<lambda>x. (k x, x)) xs)"
  by (induction xs) auto

lemma eval_keys_raises:
  "\<exists>x\<in>set xs. \<exists>err. f x = Inl err \<Longrightarrow> \<exists>err. eval_keys f xs = Inl err"
  by (induction xs) (fastforce split: sum.splits)+

text \<open>Without NaN the floats are totally ordered.\<close>

lemma fl_le_refl: "x \<noteq> NaN \<Longrightarrow> fl_le x x"
  by (simp add: fl_le_def)

lemma fl_le_trans: "fl_le x y \<Longrightarrow> fl_le y z \<Longrightarrow> fl_le x z"
  by (auto simp: fl_le_def)

lemma fl_less_imp_le: "fl_less x y \<Longrightarrow> fl_le x y"
  by (auto simp: fl_le_def fl_less_def)

lemma fl_not_less_imp_le: "x \<noteq> NaN \<Longrightarrow> y \<noteq> NaN \<Longrightarrow> \<not> fl_less x y \<Longrightarrow> fl_le y x"
  by (auto simp: fl_le_def fl_less_def)

lemma fl_less_le_trans: "fl_less x y \<Longrightarrow> fl_le y z \<Longrightarrow> fl_less x z"
  by (auto simp: fl_le_def fl_less_def)

lemma fl_less_not_le: "fl_less x y \<Longrightarrow> \<not> fl_le y x"
  by (auto simp: fl_le_def fl_less_def)

lemma hd_insert_desc:
  "hd (insert_desc x ys) = (if ys = [] \<or> \<not> fl_less (fst x) (fst (hd ys)) then x else hd ys)"
  by (cases ys) auto

lemma insert_desc_not_Nil: "insert_desc x ys \<noteq> []"
  by (cases ys) auto

lemma stable_sort_desc_Cons: "stable_sort_desc (x # xs) = insert_desc x (stable_sort_desc xs)"
  by (simp add: stable_sort_desc_def)

lemma stable_sort_desc_not_Nil: "xs \<noteq> [] \<Longrightarrow> stable_sort_desc xs \<noteq> []"
  by (cases xs) (simp_all add: stable_sort_desc_Cons insert_desc_not_Nil)

lemma set_insert_desc: "set (insert_desc x ys) = insert x (set ys)"
  by (induction ys) auto

lemma set_stable_sort_desc: "set (stable_sort_desc xs) = set xs"
  by (induction xs) (simp_all add: stable_sort_desc_def set_insert_desc)

lemma length_insert_desc: "length (insert_desc x ys) = Suc (length ys)"
  by (induction ys) auto

lemma length_stable_sort_desc: "length (stable_sort_desc xs) = length xs"
  by (induction xs) (simp_all add: stable_sort_desc_def length_insert_desc)

text \<open>The list is in decreasing order of the keys.\<close>

lemma sorted_insert_desc:
  assumes "sorted_wrt (\<lambda>a b. fl_le (fst b) (fst a)) ys" and "fst x \<noteq> NaN"
    and "\<forall>y\<in>set ys. fst y \<noteq> NaN"
  shows "sorted_wrt (\<lambda>a b. fl_le (fst b) (fst a)) (insert_desc x ys)"
  using assms
proof (induction ys)
  case Nil
  then show ?case by simp
next
  case (Cons y ys)
  show ?case
  proof (cases "fl_less (fst x) (fst y)")
    case True
    have "\<forall>b\<in>set (insert_desc x ys). fl_le (fst b) (fst y)"
      using Cons.prems True by (auto simp: set_insert_desc fl_less_imp_le)
    then show ?thesis
      using Cons True by simp
  next
    case False
    then have yx: "fl_le (fst y) (fst x)"
      using Cons.prems by (simp add: fl_not_less_imp_le)
    have "\<forall>b\<in>set ys. fl_le (fst b) (fst x)"
      using Cons.prems yx by (auto intro: fl_le_trans)
    then show ?thesis
      using Cons.prems False yx by simp
  qed
qed

lemma sorted_stable_sort_desc:
  "\<forall>x\<in>set xs. fst x \<noteq> NaN \<Longrightarrow>
     sorted_wrt (\<lambda>a b. fl_le (fst b) (fst a)) (stable_sort_desc xs)"
proof (induction xs)
  case Nil
  then show ?case by (simp add: stable_sort_desc_def)
next
  case (Cons x xs)
  then show ?case
    by (simp add: stable_sort_desc_Cons sorted_insert_desc set_stable_sort_desc)
qed

text \<open>It keeps elements of equal key in their original order: the elements of any one
  key stand as they stood.\<close>

lemma filter_insert_desc:
  assumes "\<forall>y\<in>set ys. fst y \<noteq> NaN" and "fst x \<noteq> NaN"
    and "sorted_wrt (\<lambda>a b. fl_le (fst b) (fst a)) ys"
  shows "filter (\<lambda>p. fl_le (fst p) k \<and> fl_le k (fst p)) (insert_desc x ys)
           = filter (\<lambda>p. fl_le (fst p) k \<and> fl_le k (fst p)) (x # ys)"
  using assms
proof (induction ys)
  case Nil
  then show ?case by simp
next
  case (Cons y ys)
  show ?case
  proof (cases "fl_less (fst x) (fst y)")
    case False
    then show ?thesis by simp
  next
    case True
    have ih: "filter (\<lambda>p. fl_le (fst p) k \<and> fl_le k (fst p)) (insert_desc x ys)
                = filter (\<lambda>p. fl_le (fst p) k \<and> fl_le k (fst p)) (x # ys)"
      using Cons by simp
    show ?thesis
    proof (cases "fl_le (fst x) k \<and> fl_le k (fst x)")
      case False
      then show ?thesis using True ih by auto
    next
      case xk: True
      then have "\<not> fl_le (fst y) k"
        using True by (meson fl_le_trans fl_less_not_le)
      then show ?thesis using True ih by simp
    qed
  qed
qed

lemma stable_sort_desc_stable:
  "\<forall>x\<in>set xs. fst x \<noteq> NaN \<Longrightarrow>
     filter (\<lambda>p. fl_le (fst p) k \<and> fl_le k (fst p)) (stable_sort_desc xs)
       = filter (\<lambda>p. fl_le (fst p) k \<and> fl_le k (fst p)) xs"
proof (induction xs)
  case Nil
  then show ?case by (simp add: stable_sort_desc_def)
next
  case (Cons x xs)
  then have "filter (\<lambda>p. fl_le (fst p) k \<and> fl_le k (fst p)) (stable_sort_desc (x # xs))
               = filter (\<lambda>p. fl_le (fst p) k \<and> fl_le k (fst p)) (x # stable_sort_desc xs)"
    by (simp add: stable_sort_desc_Cons filter_insert_desc set_stable_sort_desc
          sorted_stable_sort_desc)
  with Cons show ?case by simp
qed

text \<open>The head of the sorted list is the first element of greatest key.\<close>

lemma hd_stable_sort_desc:
  assumes "ks \<noteq> []" and "\<forall>p\<in>set ks. fst p \<noteq> NaN"
  shows "\<exists>i<length ks. hd (stable_sort_desc ks) = ks ! i
           \<and> (\<forall>j<length ks. fl_le (fst (ks ! j)) (fst (ks ! i)))
           \<and> (\<forall>j<i. fl_less (fst (ks ! j)) (fst (ks ! i)))"
  using assms
proof (induction ks)
  case Nil
  then show ?case by simp
next
  case (Cons x xs)
  show ?case
  proof (cases "xs = []")
    case True
    then show ?thesis
      using Cons.prems by (simp add: stable_sort_desc_def fl_le_refl)
  next
    case False
    with Cons obtain i where i: "i < length xs"
      and h: "hd (stable_sort_desc xs) = xs ! i"
      and mx: "\<forall>j<length xs. fl_le (fst (xs ! j)) (fst (xs ! i))"
      and fs: "\<forall>j<i. fl_less (fst (xs ! j)) (fst (xs ! i))"
      by auto
    have ne: "stable_sort_desc xs \<noteq> []"
      using False by (rule stable_sort_desc_not_Nil)
    have nx: "fst x \<noteq> NaN" and ni: "fst (xs ! i) \<noteq> NaN"
      using Cons.prems i by auto
    show ?thesis
    proof (cases "fl_less (fst x) (fst (xs ! i))")
      case True
      then have "hd (stable_sort_desc (x # xs)) = xs ! i"
        using ne h by (simp add: stable_sort_desc_Cons hd_insert_desc)
      moreover have "\<forall>j<length (x # xs). fl_le (fst ((x # xs) ! j)) (fst (xs ! i))"
        using mx True by (auto simp: nth_Cons fl_less_imp_le split: nat.splits)
      moreover have "\<forall>j<Suc i. fl_less (fst ((x # xs) ! j)) (fst (xs ! i))"
        using fs True by (auto simp: nth_Cons split: nat.splits)
      ultimately show ?thesis
        using i by (intro exI[of _ "Suc i"]) simp
    next
      case False
      then have ix: "fl_le (fst (xs ! i)) (fst x)"
        using nx ni by (simp add: fl_not_less_imp_le)
      have "hd (stable_sort_desc (x # xs)) = x"
        using ne h False by (simp add: stable_sort_desc_Cons hd_insert_desc)
      moreover have "\<forall>j<length (x # xs). fl_le (fst ((x # xs) ! j)) (fst x)"
        using mx ix nx by (auto simp: nth_Cons fl_le_refl intro: fl_le_trans split: nat.splits)
      ultimately show ?thesis
        by (intro exI[of _ 0]) simp
    qed
  qed
qed

lemma sort_reverse_first:
  assumes conv: "\<forall>x\<in>set xs. f x = Inr (k x)" and nonan: "\<forall>x\<in>set xs. k x \<noteq> NaN"
    and ne: "xs \<noteq> []"
  shows "\<exists>i<length xs. \<exists>rest. sort_reverse L f xs = Inr (xs ! i # rest)
           \<and> (\<forall>j<length xs. fl_le (k (xs ! j)) (k (xs ! i)))
           \<and> (\<forall>j<i. fl_less (k (xs ! j)) (k (xs ! i)))"
proof -
  let ?ks = "map (\<lambda>x. (k x, x)) xs"
  have ks: "eval_keys f xs = Inr ?ks"
    using conv by (rule eval_keys_total)
  have ordered: "\<not> list_ex (\<lambda>p. fst p = NaN) ?ks"
    using nonan by (auto simp: list_ex_iff)
  have "?ks \<noteq> []" using ne by simp
  moreover have "\<forall>p\<in>set ?ks. fst p \<noteq> NaN"
    using nonan by auto
  ultimately obtain i where i: "i < length xs"
    and h: "hd (stable_sort_desc ?ks) = ?ks ! i"
    and mx: "\<forall>j<length ?ks. fl_le (fst (?ks ! j)) (fst (?ks ! i))"
    and fs: "\<forall>j<i. fl_less (fst (?ks ! j)) (fst (?ks ! i))"
    using hd_stable_sort_desc[of ?ks] by auto
  have "stable_sort_desc ?ks \<noteq> []"
    using ne by (simp add: stable_sort_desc_not_Nil)
  then obtain b rest where br: "stable_sort_desc ?ks = b # rest"
    by (cases "stable_sort_desc ?ks") auto
  with h have "b = ?ks ! i" by simp
  then have "snd b = xs ! i" using i by simp
  then have "sort_reverse L f xs = Inr (xs ! i # map snd rest)"
    using ordered by (simp add: sort_reverse_def ks br)
  moreover have "\<forall>j<length xs. fl_le (k (xs ! j)) (k (xs ! i))"
    using mx i by simp
  moreover have "\<forall>j<i. fl_less (k (xs ! j)) (k (xs ! i))"
    using fs i by simp
  ultimately show ?thesis using i by blast
qed

lemma round_binary64_0: "round_binary64 0 = Finite 0"
  by (simp add: round_binary64_def)

lemma float_field_falsy:
  "\<not> truthy (dict_get_or e key (JInt 0)) \<Longrightarrow> float_field L key e = Inr (Finite 0)"
  by (simp add: float_field_def py_or_def py_float_def float_of_int_def round_binary64_0)

lemmas eval_defs =
  float_field_def dict_get_def dict_get_or_def py_or_def py_float_def py_str_def core_lib_def

lemma floor_rat_numeral_div:
  "\<lfloor>numeral a / numeral b :: rat\<rfloor> = numeral a div numeral b"
  "\<lfloor>1 / numeral b :: rat\<rfloor> = 1 div numeral b"
  "\<lfloor>- (numeral a / numeral b) :: rat\<rfloor> = - numeral a div numeral b"
  using floor_divide_of_int_eq[of "numeral a" "numeral b", where ?'a = rat]
        floor_divide_of_int_eq[of 1 "numeral b", where ?'a = rat]
        floor_divide_of_int_eq[of "- numeral a" "numeral b", where ?'a = rat]
  by simp_all

lemma ceiling_rat_numeral_div:
  "\<lceil>numeral a / numeral b :: rat\<rceil> = - (- numeral a div numeral b)"
  "\<lceil>1 / numeral b :: rat\<rceil> = - (- 1 div numeral b)"
  using ceiling_divide_eq_div[of "numeral a" "numeral b", where ?'a = rat]
        ceiling_divide_eq_div[of 1 "numeral b", where ?'a = rat]
  by simp_all

lemmas float_eval_defs =
  float_of_int_def round_binary64_def nearest_binary64_def floor_log2_def pow2_def
  round_half_even_def bit_length.simps floor_rat_numeral_div ceiling_rat_numeral_div

lemmas parse_eval_defs =
  dec_float_of_str_def strip_spaces_def is_space_def is_digit_def digits_val_def
  ascii_lower_def signed_float_def parse_exponent_def

lemmas sample_defs =
  ev_low_def ev_high_def ev_tie_def ev_no_volume_def ev_unparsable_def

lemma float_of_int_samples:
  "float_of_int 0 = Inr (Finite 0)" "float_of_int 1 = Inr (Finite 1)"
  "float_of_int 10 = Inr (Finite 10)" "float_of_int 11 = Inr (Finite 11)"
  "float_of_int 50 = Inr (Finite 50)" "float_of_int (- 5) = Inr (Finite (- 5))"
  by (simp_all add: float_eval_defs)

text \<open>An integer beyond 53 bits is rounded, ties to the even neighbour, and one that
  rounds to \<open>2 ^ 1024\<close> is out of range.\<close>

lemma float_of_int_rounds:
  "float_of_int (2 ^ 53 + 1) = Inr (Finite (2 ^ 53))"
  "float_of_int (2 ^ 53 + 3) = Inr (Finite (2 ^ 53 + 4))"
  "float_of_int (2 ^ 1024) = Inl OverflowError"
  by (simp_all add: float_eval_defs)

lemma float_of_str_samples:
  "dec_float_of_str (U ''50'') = Some (Finite 50)"
  "dec_float_of_str (U ''abc'') = None"
  "dec_float_of_str (U ''nan'') = Some NaN"
  by (simp_all add: parse_eval_defs float_eval_defs)

lemma sample_volumes:
  "float_field core_lib (U ''volume'') ev_low = Inr (Finite 10)"
  "float_field core_lib (U ''volume'') ev_high = Inr (Finite 50)"
  "float_field core_lib (U ''volume'') ev_tie = Inr (Finite 50)"
  "float_field core_lib (U ''volume'') ev_no_volume = Inr (Finite 0)"
  "float_field core_lib (U ''volume'') ev_unparsable = Inl ValueError"
  "float_field core_lib (U ''volume'') ev_one = Inr (Finite 1)"
  "float_field core_lib (U ''volume'') ev_nan = Inr NaN"
  "float_field core_lib (U ''volume'') ev_eleven = Inr (Finite 11)"
  by (simp_all add: eval_defs sample_defs ev_one_def ev_nan_def ev_eleven_def
        float_of_int_samples float_of_str_samples[simplified])

lemmas volumes_evaluated = sample_volumes[simplified]

text \<open>
  C1, as the specification states it: on every list of events \<^verbatim>\<open>find_best_event\<close>
  returns the first event of greatest volume, an invalid volume counting as 0. It fails
  on the one-element list whose event has the volume \<^verbatim>\<open>"abc"\<close>: \<^verbatim>\<open>float\<close> raises
  ValueError inside the sort key and no event is returned, although that event is the
  first of greatest volume when \<^verbatim>\<open>"abc"\<close> counts as 0.
\<close>

theorem find_best_event_invalid_volume_raises:
  "find_best_event core_lib [ev_unparsable] = Inl ValueError
   \<and> find_best_event core_lib [ev_unparsable] \<noteq> Inr (Some ev_unparsable)
   \<and> volume_or_zero core_lib ev_unparsable = Finite 0"
  by (simp add: find_best_event_def sort_reverse_def volume_or_zero_def volumes_evaluated)

lemma sort_unordered_core_lib: "sort_unordered core_lib = short_list_sort_reverse"
  by (simp add: core_lib_def)

text \<open>
  With a volume that is NaN the keys are not ordered, and the event that comes first
  need not be one of greatest volume: of the volumes 1, \<^verbatim>\<open>"nan"\<close> and 11 the sort of
  CPython leaves the list as it is, and the event of volume 1 is returned.
\<close>

lemma find_best_event_nan_volume:
  "find_best_event core_lib [ev_one, ev_nan, ev_eleven] = Inr (Some ev_one)"
  by (simp add: find_best_event_def sort_reverse_def volumes_evaluated sort_unordered_core_lib
        short_list_sort_reverse_def short_list_sort_def count_run_def binary_insert_def
        bisect.simps fl_less_def)

text \<open>
  C1, amended: \<^verbatim>\<open>find_best_event\<close> returns none on the empty list. On a list whose
  volumes all convert with \<^verbatim>\<open>float\<close> to floats other than NaN, it returns the event at
  the first position of greatest volume: no volume is greater and every earlier one is
  strictly smaller, the volumes compared as the floats they convert to. A volume that is
  missing, null, zero or empty counts as 0. When some volume of a non-empty list does not
  convert, \<^verbatim>\<open>find_best_event\<close> raises. Nothing is said of a list with a volume that
  is NaN.
\<close>

theorem find_best_event_first_max:
  "find_best_event L [] = Inr None
   \<and> ((\<forall>e\<in>set events. float_field L (U ''volume'') e = Inr (vol e) \<and> vol e \<noteq> NaN)
        \<and> events \<noteq> [] \<longrightarrow>
        (\<exists>i<length events. find_best_event L events = Inr (Some (events ! i))
           \<and> (\<forall>j<length events. fl_le (vol (events ! j)) (vol (events ! i)))
           \<and> (\<forall>j<i. fl_less (vol (events ! j)) (vol (events ! i)))))
   \<and> (\<not> truthy (dict_get_or e (U ''volume'') (JInt 0)) \<longrightarrow>
        float_field L (U ''volume'') e = Inr (Finite 0))
   \<and> (events \<noteq> [] \<and> (\<exists>e\<in>set events. \<exists>err. float_field L (U ''volume'') e = Inl err) \<longrightarrow>
        (\<exists>err. find_best_event L events = Inl err))"
proof (intro conjI impI)
  show "find_best_event L [] = Inr None"
    by (simp add: find_best_event_def)
next
  assume a: "(\<forall>e\<in>set events. float_field L (U ''volume'') e = Inr (vol e) \<and> vol e \<noteq> NaN)
             \<and> events \<noteq> []"
  then obtain i rest where "i < length events"
    and "sort_reverse L (float_field L (U ''volume'')) events = Inr (events ! i # rest)"
    and "\<forall>j<length events. fl_le (vol (events ! j)) (vol (events ! i))"
    and "\<forall>j<i. fl_less (vol (events ! j)) (vol (events ! i))"
    using sort_reverse_first[of events "float_field L (U ''volume'')" vol L] by blast
  then show "\<exists>i<length events. find_best_event L events = Inr (Some (events ! i))
           \<and> (\<forall>j<length events. fl_le (vol (events ! j)) (vol (events ! i)))
           \<and> (\<forall>j<i. fl_less (vol (events ! j)) (vol (events ! i)))"
    using a by (auto simp: find_best_event_def)
next
  assume "\<not> truthy (dict_get_or e (U ''volume'') (JInt 0))"
  then show "float_field L (U ''volume'') e = Inr (Finite 0)"
    by (rule float_field_falsy)
next
  assume a: "events \<noteq> [] \<and> (\<exists>e\<in>set events. \<exists>err. float_field L (U ''volume'') e = Inl err)"
  then obtain err where "eval_keys (float_field L (U ''volume'')) events = Inl err"
    using eval_keys_raises[of events "float_field L (U ''volume'')"] by blast
  then show "\<exists>err. find_best_event L events = Inl err"
    using a by (simp add: find_best_event_def sort_reverse_def)
qed

text \<open>The amended C1 on \<^verbatim>\<open>[10, 50, "50"]\<close>, where the second event is returned and not
  the third of equal volume, on the event without a volume, and on a list with the
  volume \<^verbatim>\<open>"abc"\<close>.\<close>

theorem find_best_event_first_max_witness:
  "(float_field core_lib (U ''volume'') ev_low = Inr (Finite 10)
    \<and> float_field core_lib (U ''volume'') ev_high = Inr (Finite 50)
    \<and> float_field core_lib (U ''volume'') ev_tie = Inr (Finite 50)
    \<and> find_best_event core_lib [ev_low, ev_high, ev_tie] = Inr (Some ev_high))
   \<and> (\<not> truthy (dict_get_or ev_no_volume (U ''volume'') (JInt 0))
      \<and> float_field core_lib (U ''volume'') ev_no_volume = Inr (Finite 0))
   \<and> (float_field core_lib (U ''volume'') ev_unparsable = Inl ValueError
      \<and> (\<exists>err. find_best_event core_lib [ev_low, ev_unparsable] = Inl err))"
proof -
  let ?vol = "volume_or_zero core_lib"
  have vals: "?vol ev_low = Finite 10" "?vol ev_high = Finite 50" "?vol ev_tie = Finite 50"
    by (simp_all add: volume_or_zero_def volumes_evaluated)
  have conv: "\<forall>e\<in>set [ev_low, ev_high, ev_tie].
                float_field core_lib (U ''volume'') e = Inr (?vol e) \<and> ?vol e \<noteq> NaN"
    by (simp add: volume_or_zero_def volumes_evaluated)
  have "[ev_low, ev_high, ev_tie] \<noteq> []" by simp
  with find_best_event_first_max[of core_lib "[ev_low, ev_high, ev_tie]" ?vol ev_no_volume] conv
  have "\<exists>i<length [ev_low, ev_high, ev_tie].
          find_best_event core_lib [ev_low, ev_high, ev_tie]
            = Inr (Some ([ev_low, ev_high, ev_tie] ! i))
          \<and> (\<forall>j<length [ev_low, ev_high, ev_tie].
                fl_le (?vol ([ev_low, ev_high, ev_tie] ! j)) (?vol ([ev_low, ev_high, ev_tie] ! i)))
          \<and> (\<forall>j<i. fl_less (?vol ([ev_low, ev_high, ev_tie] ! j))
                            (?vol ([ev_low, ev_high, ev_tie] ! i)))"
    by blast
  then obtain i where i: "i < length [ev_low, ev_high, ev_tie]"
    and best: "find_best_event core_lib [ev_low, ev_high, ev_tie]
                 = Inr (Some ([ev_low, ev_high, ev_tie] ! i))"
    and mx: "\<forall>j<length [ev_low, ev_high, ev_tie].
               fl_le (?vol ([ev_low, ev_high, ev_tie] ! j)) (?vol ([ev_low, ev_high, ev_tie] ! i))"
    and fs: "\<forall>j<i. fl_less (?vol ([ev_low, ev_high, ev_tie] ! j))
                           (?vol ([ev_low, ev_high, ev_tie] ! i))"
    by blast
  have "i = 1"
  proof -
    have "i \<noteq> 0"
    proof
      assume "i = 0"
      with mx[rule_format, of 1] vals show False by (simp add: fl_le_def)
    qed
    moreover have "i \<noteq> 2"
    proof
      assume "i = 2"
      with fs[rule_format, of 1] vals show False by (simp add: fl_less_def)
    qed
    moreover have "i < 3" using i by simp
    ultimately show ?thesis by arith
  qed
  with best have first: "find_best_event core_lib [ev_low, ev_high, ev_tie] = Inr (Some ev_high)"
    by simp
  have falsy: "\<not> truthy (dict_get_or ev_no_volume (U ''volume'') (JInt 0))"
    by (simp add: dict_get_or_def ev_no_volume_def)
  with find_best_event_first_max[of core_lib "[]" ?vol ev_no_volume]
  have zero: "float_field core_lib (U ''volume'') ev_no_volume = Inr (Finite 0)"
    by blast
  have bad: "float_field core_lib (U ''volume'') ev_unparsable = Inl ValueError"
    by (rule sample_volumes)
  with find_best_event_first_max[of core_lib "[ev_low, ev_unparsable]" ?vol ev_no_volume]
  have raises: "\<exists>err. find_best_event core_lib [ev_low, ev_unparsable] = Inl err"
    by auto
  from first falsy zero bad raises show ?thesis
    by (simp add: volumes_evaluated)
qed

section \<open>Properties of the filter\<close>

lemma filter_loop_keep:
  "keeps L now mv tw e \<Longrightarrow>
     filter_loop L now mv tw (e # es) acc = filter_loop L now mv tw es (acc @ [e])"
  by (auto simp: keeps_def split: sum.splits)

lemma filter_loop_drop:
  "\<not> keeps L now mv tw e \<Longrightarrow> filter_loop L now mv tw (e # es) acc = Inr res \<Longrightarrow>
     filter_loop L now mv tw es acc = Inr res"
  by (auto simp: keeps_def split: sum.splits bool.splits if_splits)

text \<open>When the loop returns, it returns the events that pass all five checks, in their
  order.\<close>

lemma filter_loop_result:
  "filter_loop L now mv tw events acc = Inr res \<Longrightarrow> res = acc @ filter (keeps L now mv tw) events"
proof (induction events arbitrary: acc)
  case Nil
  then show ?case by simp
next
  case (Cons e events)
  show ?case
  proof (cases "keeps L now mv tw e")
    case True
    with Cons.prems have "filter_loop L now mv tw events (acc @ [e]) = Inr res"
      by (simp only: filter_loop_keep)
    from Cons.IH[OF this] True show ?thesis by simp
  next
    case False
    from filter_loop_drop[OF False Cons.prems] have "filter_loop L now mv tw events acc = Inr res" .
    from Cons.IH[OF this] False show ?thesis by simp
  qed
qed

lemma filter_loop_tweeted:
  "event_id_of L e \<in> tw \<Longrightarrow>
     filter_loop L now mv tw (pre @ e # post) acc = filter_loop L now mv tw (pre @ post) acc"
proof (induction pre arbitrary: acc)
  case Nil
  then show ?case by simp
next
  case (Cons x pre)
  then show ?case
    by (simp split: sum.splits bool.splits)
qed

lemma filter_events_result:
  "filter_events L now mv events st = Inr res \<Longrightarrow>
     res = filter (keeps L now mv (set (tweeted_ids_of st))) events"
  using filter_loop_result[of L now mv "set (tweeted_ids_of st)" events "[]" res]
  by (simp add: filter_events_def)

lemmas filter_eval_defs =
  filter_events_def tweeted_ids_of_def event_id_of_def is_sports_event_def is_crypto_spam_def
  is_expired_def lower_field_def py_iter_def debug_title_def py_slice_to_def
  sports_patterns_def startswith_def ascii_lower_def

lemmas run_defs =
  eval_defs float_of_int_samples parse_eval_defs float_eval_defs

text \<open>
  C2: an event whose id is among the announced ids of the state is never in the result
  of \<^verbatim>\<open>filter_events\<close>, and its other fields play no part: the call has the same
  outcome, result or exception, as the call on the list without that event.
\<close>

theorem filter_events_excludes_tweeted:
  assumes "event_id_of L e \<in> set (tweeted_ids_of st)"
  shows "filter_events L now mv (pre @ e # post) st = filter_events L now mv (pre @ post) st
         \<and> (\<forall>res. filter_events L now mv events st = Inr res \<longrightarrow> e \<notin> set res)"
proof
  show "filter_events L now mv (pre @ e # post) st = filter_events L now mv (pre @ post) st"
    using assms by (simp add: filter_events_def filter_loop_tweeted)
next
  show "\<forall>res. filter_events L now mv events st = Inr res \<longrightarrow> e \<notin> set res"
  proof (intro allI impI)
    fix res
    assume "filter_events L now mv events st = Inr res"
    then have "res = filter (keeps L now mv (set (tweeted_ids_of st))) events"
      by (rule filter_events_result)
    then show "e \<notin> set res"
      using assms by (auto simp: keeps_def)
  qed
qed

text \<open>C2 on the state that has announced \<^verbatim>\<open>b\<close>: of the events \<^verbatim>\<open>a\<close>, \<^verbatim>\<open>b\<close> and
  \<^verbatim>\<open>c\<close> the filter returns \<^verbatim>\<open>a\<close> and \<^verbatim>\<open>c\<close>.\<close>

theorem filter_events_excludes_tweeted_witness:
  "event_id_of core_lib ev_high \<in> set (tweeted_ids_of st_seen)
   \<and> filter_events core_lib now_sample MIN_VOLUME [ev_low, ev_high, ev_tie] st_seen
       = Inr [ev_low, ev_tie]
   \<and> ev_high \<notin> set [ev_low, ev_tie]"
proof -
  have seen: "event_id_of core_lib ev_high \<in> set (tweeted_ids_of st_seen)"
    by (simp add: st_seen_def filter_eval_defs eval_defs sample_defs)
  have rest: "filter_events core_lib now_sample MIN_VOLUME ([ev_low] @ [ev_tie]) st_seen
                = Inr [ev_low, ev_tie]"
    by (simp add: st_seen_def MIN_VOLUME_def filter_eval_defs run_defs sample_defs fl_less_def)
  note excl = filter_events_excludes_tweeted[OF seen, of now_sample MIN_VOLUME "[ev_low]"
                 "[ev_tie]" "[ev_low, ev_high, ev_tie]"]
  from excl rest
  have run: "filter_events core_lib now_sample MIN_VOLUME [ev_low, ev_high, ev_tie] st_seen
               = Inr [ev_low, ev_tie]"
    by simp
  from excl run have "ev_high \<notin> set [ev_low, ev_tie]"
    by blast
  with seen run show ?thesis by blast
qed

text \<open>
  C6: when \<^verbatim>\<open>filter_events\<close> returns, no event whose volume is strictly below the
  minimum is in its result. With the minimum 0, which the module's comment calls no
  filter, the volume check excludes no event: an event of the list whose volume, a
  number that is not negative, is at least 0 and which passes the four other checks is
  in the result.
\<close>

theorem filter_events_volume_threshold:
  assumes "filter_events L now mv events st = Inr res"
  shows "(float_field L (U ''volume'') e = Inr v \<and> fl_less v (Finite (of_int mv))
            \<longrightarrow> e \<notin> set res)
         \<and> (mv = 0 \<and> e \<in> set events \<and> float_field L (U ''volume'') e = Inr v
              \<and> fl_le (Finite 0) v
              \<and> event_id_of L e \<notin> set (tweeted_ids_of st)
              \<and> is_sports_event L e = Inr False \<and> is_crypto_spam L e = Inr False
              \<and> \<not> is_expired L now e \<longrightarrow> e \<in> set res)"
proof -
  have "res = filter (keeps L now mv (set (tweeted_ids_of st))) events"
    using assms by (rule filter_events_result)
  then show ?thesis
    by (auto simp: keeps_def dest: fl_less_not_le)
qed

text \<open>C6 on the events of volumes 10 and 50 with the minimum 20, where the first is
  excluded, and on the event of volume 10 and the event without a volume with the minimum
  0, where both are kept.\<close>

theorem filter_events_volume_threshold_witness:
  "filter_events core_lib now_sample 20 [ev_low, ev_high] st_fresh = Inr [ev_high]
   \<and> float_field core_lib (U ''volume'') ev_low = Inr (Finite 10)
   \<and> fl_less (Finite 10) (Finite (of_int 20)) \<and> ev_low \<notin> set [ev_high]
   \<and> filter_events core_lib now_sample 0 [ev_low, ev_no_volume] st_fresh
       = Inr [ev_low, ev_no_volume]
   \<and> float_field core_lib (U ''volume'') ev_no_volume = Inr (Finite 0)
   \<and> fl_le (Finite 0) (Finite 0) \<and> ev_no_volume \<in> set [ev_low, ev_no_volume]"
proof -
  have run20: "filter_events core_lib now_sample 20 [ev_low, ev_high] st_fresh = Inr [ev_high]"
    by (simp add: st_fresh_def filter_eval_defs run_defs sample_defs fl_less_def)
  have run0: "filter_events core_lib now_sample 0 [ev_low, ev_no_volume] st_fresh
                = Inr [ev_low, ev_no_volume]"
    by (simp add: st_fresh_def filter_eval_defs run_defs sample_defs fl_less_def)
  have low: "float_field core_lib (U ''volume'') ev_low = Inr (Finite 10)"
    and none: "float_field core_lib (U ''volume'') ev_no_volume = Inr (Finite 0)"
    by (rule sample_volumes)+
  have below: "fl_less (Finite 10) (Finite (of_int 20))" and least: "fl_le (Finite 0) (Finite 0)"
    by (simp_all add: fl_less_def fl_le_def)
  have pass: "ev_no_volume \<in> set [ev_low, ev_no_volume]
              \<and> event_id_of core_lib ev_no_volume \<notin> set (tweeted_ids_of st_fresh)
              \<and> is_sports_event core_lib ev_no_volume = Inr False
              \<and> is_crypto_spam core_lib ev_no_volume = Inr False
              \<and> \<not> is_expired core_lib now_sample ev_no_volume"
    by (simp add: st_fresh_def filter_eval_defs eval_defs sample_defs)
  from filter_events_volume_threshold[OF run20, of ev_low "Finite 10"] low below
  have "ev_low \<notin> set [ev_high]" by blast
  moreover from filter_events_volume_threshold[OF run0, of ev_no_volume "Finite 0"] none least pass
  have "ev_no_volume \<in> set [ev_low, ev_no_volume]" by blast
  ultimately show ?thesis using run20 run0 low none below least by blast
qed

section \<open>Properties of the expiry check\<close>

lemmas iso_eval_defs =
  iso_fromisoformat_def parse_iso_date_def parse_iso_time_def parse_iso_offset_def
  number_of_def days_in_month_def days_from_civil_def endswith_def is_digit_def digits_val_def

text \<open>
  What \<^verbatim>\<open>is_expired\<close> computes. It always returns a truth value, every exception of
  its \<^verbatim>\<open>try\<close> body being answered by \<^verbatim>\<open>False\<close>: it returns \<^verbatim>\<open>False\<close> when the key is
  absent, when the value is not a string, and when the string cannot be parsed. It returns
  \<^verbatim>\<open>True\<close> when the end date is a non-empty string that \<^verbatim>\<open>fromisoformat\<close> reads, a
  final \<^verbatim>\<open>Z\<close> replaced by \<^verbatim>\<open>+00:00\<close>, as a datetime with an offset whose instant is
  strictly before \<open>now\<close>, and in no other case.
\<close>

lemma is_expired_iff:
  "is_expired L now event \<longleftrightarrow>
     (\<exists>s t. dict_get event (U ''endDate'') = JStr s \<and> s \<noteq> []
        \<and> fromisoformat L (if endswith s (U ''Z'') then butlast s @ U ''+00:00'' else s)
            = Some (Aware t)
        \<and> t < now)"
  by (cases "dict_get event (U ''endDate'')")
     (auto simp: is_expired_def is_expired_try_def Let_def
           split: option.splits pydatetime.splits)

lemma is_expired_absent:
  "map_of event (U ''endDate'') = None \<Longrightarrow> \<not> is_expired L now event"
  by (simp add: is_expired_def dict_get_def)

lemma is_expired_unparsable:
  "dict_get event (U ''endDate'') = JStr s \<Longrightarrow>
   fromisoformat L (if endswith s (U ''Z'') then butlast s @ U ''+00:00'' else s) = None \<Longrightarrow>
   \<not> is_expired L now event"
  by (auto simp: is_expired_iff)

lemma is_expired_not_a_string:
  "\<forall>s. dict_get event (U ''endDate'') \<noteq> JStr s \<Longrightarrow> \<not> is_expired L now event"
  by (auto simp: is_expired_iff)

text \<open>At \<open>now_sample\<close> the event that ended the day before is expired; the event that ends
  later, the event without an end date and the one whose end date is no date are not.\<close>

lemma is_expired_samples:
  "is_expired core_lib now_sample ev_ended"
  "\<not> is_expired core_lib now_sample ev_open"
  "\<not> is_expired core_lib now_sample ev_low"
  "\<not> is_expired core_lib now_sample ev_bad_end"
  by (simp_all add: ev_ended_def ev_open_def ev_low_def ev_bad_end_def now_sample_def
        is_expired_def is_expired_try_def dict_get_def core_lib_def iso_eval_defs)

text \<open>
  C8 says that \<^verbatim>\<open>is_expired\<close> is true exactly when the end date is present, can be
  parsed and lies before the current time. The function fails to be so on the end date
  \<^verbatim>\<open>2020-01-01T00:00:00\<close> at an instant of 2025: \<^verbatim>\<open>fromisoformat\<close> reads the string,
  as a datetime without offset, which is years before \<open>now\<close> in every time zone;
  comparing it to the aware \<open>now\<close> raises TypeError, and the handler that is there for
  strings that are no dates answers \<^verbatim>\<open>False\<close>. The same end date with a final \<^verbatim>\<open>Z\<close>
  is reported as expired.
\<close>

theorem is_expired_naive_end_date_false:
  "dict_get ev_naive_end (U ''endDate'') = JStr (U ''2020-01-01T00:00:00'')
   \<and> fromisoformat core_lib (U ''2020-01-01T00:00:00'') = Some (Naive 1577836800000000)
   \<and> 1577836800000000 + 86400000000 < now_sample
   \<and> is_expired_try core_lib now_sample (JStr (U ''2020-01-01T00:00:00'')) = Inl TypeError
   \<and> \<not> is_expired core_lib now_sample ev_naive_end
   \<and> is_expired core_lib now_sample ev_utc_end"
  by (simp add: ev_naive_end_def ev_utc_end_def now_sample_def is_expired_def is_expired_try_def
        dict_get_def core_lib_def iso_eval_defs)

section \<open>Properties of the tweet text\<close>



text \<open>\<^verbatim>\<open>format_tweet\<close> on an event whose title, after the default, is a string and
  whose volume and liquidity convert.\<close>

lemma format_tweet_string_title:
  assumes "py_or (dict_get event (U ''title'')) (JStr (U ''New Event'')) = JStr title"
    and "float_field L (U ''volume'') event = Inr volume"
    and "float_field L (U ''liquidity'') event = Inr liquidity"
  shows "format_tweet L event =
     (let url = U ''https://polymarket.com/event/''
                @ py_str L (py_or (dict_get event (U ''slug'')) (dict_get event (U ''id'')));
          vol_str = format_number L volume;
          liq_str = format_number L liquidity;
          tweet = render_tweet FOOTER_WAITLIST title vol_str liq_str url;
          max_title_len = int (length title) - (int (length tweet) - 280) - 3
      in if length tweet > 280 \<and> max_title_len > 20
         then Inr (take 280 (render_tweet FOOTER_TERMINAL
                              (take (nat max_title_len) title @ U ''...'') vol_str liq_str url))
         else Inr (take 280 tweet))"
  using assms
  by (simp add: format_tweet_def Let_def py_len_def py_slice_to_def py_add_str_def py_str_def)

lemma format_tweet_at_most_280:
  "format_tweet L event = Inr s \<Longrightarrow> length s \<le> 280"
  by (auto simp: format_tweet_def Let_def split: sum.splits if_splits)


text \<open>
  C3: a string returned by \<^verbatim>\<open>format_tweet\<close> has at most 280 characters. The function
  returns a string for every event whose title is a string, or is missing or empty
  so that the default title stands in, and whose volume and liquidity convert with
  \<^verbatim>\<open>float\<close>.
\<close>

theorem format_tweet_length:
  "(format_tweet L event = Inr s \<longrightarrow> length s \<le> 280)
   \<and> (py_or (dict_get event (U ''title'')) (JStr (U ''New Event'')) = JStr title
        \<and> float_field L (U ''volume'') event = Inr volume
        \<and> float_field L (U ''liquidity'') event = Inr liquidity
      \<longrightarrow> (\<exists>s. format_tweet L event = Inr s \<and> length s \<le> 280))"
proof (intro conjI impI)
  assume "format_tweet L event = Inr s"
  then show "length s \<le> 280"
    by (rule format_tweet_at_most_280)
next
  assume a: "py_or (dict_get event (U ''title'')) (JStr (U ''New Event'')) = JStr title
        \<and> float_field L (U ''volume'') event = Inr volume
        \<and> float_field L (U ''liquidity'') event = Inr liquidity"
  then have "\<exists>s. format_tweet L event = Inr s"
    by (simp add: format_tweet_string_title Let_def)
  then obtain s where s: "format_tweet L event = Inr s" ..
  then have "length s \<le> 280"
    by (rule format_tweet_at_most_280)
  with s show "\<exists>s. format_tweet L event = Inr s \<and> length s \<le> 280" by blast
qed

text \<open>C3 on the event with a title of 300 characters: a string is returned and it has at
  most 280 characters.\<close>

theorem format_tweet_length_witness:
  "py_or (dict_get ev_long_title (U ''title'')) (JStr (U ''New Event'')) = JStr (replicate 300 97)
   \<and> float_field core_lib (U ''volume'') ev_long_title = Inr (Finite 10)
   \<and> float_field core_lib (U ''liquidity'') ev_long_title = Inr (Finite 0)
   \<and> (\<exists>s. format_tweet core_lib ev_long_title = Inr s \<and> length s \<le> 280)"
proof -
  have typed: "py_or (dict_get ev_long_title (U ''title'')) (JStr (U ''New Event''))
                 = JStr (replicate 300 97)
     \<and> float_field core_lib (U ''volume'') ev_long_title = Inr (Finite 10)
     \<and> float_field core_lib (U ''liquidity'') ev_long_title = Inr (Finite 0)"
    by (simp add: ev_long_title_def run_defs)
  with format_tweet_length[of core_lib ev_long_title _ "replicate 300 97" "Finite 10" "Finite 0"]
  have "\<exists>s. format_tweet core_lib ev_long_title = Inr s \<and> length s \<le> 280"
    by blast
  with typed show ?thesis by blast
qed




section \<open>Properties of the polling iteration\<close>

text \<open>An iteration that makes a publish attempt leaves the state as it was, but for the
  time of the poll, when the attempt fails, and marks the best event when it succeeds.\<close>

lemma run_once_attempt:
  assumes "run_once L now v2_client response outcome st = Inr (st', Some (tweet_text, image_url, ok))"
  shows "ok = send_tweet_with_image v2_client outcome tweet_text image_url
         \<and> (\<exists>best_event.
               st' = (if ok then mark_tweeted st (event_id_of L best_event) else st)
                       \<lparr>last_poll_time := Some (isoformat now)\<rparr>)"
  using assms
  by (auto simp: run_once_def Let_def split: sum.splits if_splits option.splits)

text \<open>The iteration on a response whose events pass the filter.\<close>

lemma run_once_publishes:
  assumes "fetch_recent_events now LOOKBACK_MINUTES response = Inr events" and "events \<noteq> []"
    and "filter_events L now MIN_VOLUME events st = Inr quality_events"
    and "quality_events \<noteq> []"
    and "find_best_event L quality_events = Inr (Some best_event)" and "best_event \<noteq> []"
    and "debug_title best_event 50 = Inr title"
    and "float_field L (U ''volume'') best_event = Inr volume"
    and "format_tweet L best_event = Inr tweet_text"
    and "ok = send_tweet_with_image v2_client outcome tweet_text (get_event_image_url best_event)"
  shows "run_once L now v2_client response outcome st
           = Inr ((if ok then mark_tweeted st (event_id_of L best_event) else st)
                    \<lparr>last_poll_time := Some (isoformat now)\<rparr>,
                  Some (tweet_text, get_event_image_url best_event, ok))"
  using assms by (simp add: run_once_def Let_def)

lemma keep_last_suffix:
  "xs = take (length xs - n) xs @ keep_last n xs" "length (keep_last n xs) = min n (length xs)"
  by (simp_all add: keep_last_def)

lemma cutoff_sample:
  "minus_minutes now_sample LOOKBACK_MINUTES = Inr 1735732800000000"
  "strftime_cutoff 1735732800000000 = U ''2025-01-01T12:00:00Z''"
  by code_simp+

lemma fetch_sample:
  "fetch_recent_events now_sample LOOKBACK_MINUTES (Inr (JArr [JObj ev_recent])) = Inr [ev_recent]"
  by code_simp

lemma filter_sample:
  "filter_events core_lib now_sample MIN_VOLUME [ev_recent] st_seen = Inr [ev_recent]"
  "filter_events core_lib now_sample MIN_VOLUME [ev_recent] st_full = Inr [ev_recent]"
  by (simp_all add: st_seen_def st_full_def MIN_VOLUME_def filter_eval_defs run_defs
        ev_recent_def fl_less_def)

lemma best_sample:
  "float_field core_lib (U ''volume'') ev_recent = Inr (Finite 10)"
  "find_best_event core_lib [ev_recent] = Inr (Some ev_recent)"
  "debug_title ev_recent 50 = Inr (JStr (U ''Rain''))"
  "event_id_of core_lib ev_recent = U ''a''"
  "get_event_image_url ev_recent = None"
  by code_simp+

lemma ev_recent_not_empty: "ev_recent \<noteq> []"
  by (simp add: ev_recent_def)

lemma format_sample: "\<exists>s. format_tweet core_lib ev_recent = Inr s"
proof -
  have "py_or (dict_get ev_recent (U ''title'')) (JStr (U ''New Event'')) = JStr (U ''Rain'')"
    and "float_field core_lib (U ''volume'') ev_recent = Inr (Finite 10)"
    and "float_field core_lib (U ''liquidity'') ev_recent = Inr (Finite 0)"
    by (simp_all add: run_defs ev_recent_def)
  then show ?thesis
    by (simp add: format_tweet_string_title Let_def)
qed

text \<open>
  C5: when \<^verbatim>\<open>send_tweet_with_image\<close> returns \<^verbatim>\<open>False\<close>, which it does with a client
  on a rate limit, on a server error and on any other exception, \<^verbatim>\<open>run_once\<close> leaves
  the list of announced ids and the counter of sent tweets as they were; of the state
  only the time of the poll changes.
\<close>

theorem run_once_failed_publish_records_nothing:
  "(v2_client \<and> outcome \<in> {TooManyRequests, TwitterServerError, OtherException}
      \<longrightarrow> \<not> send_tweet_with_image v2_client outcome tweet_text image_url)
   \<and> (run_once L now v2_client response outcome st
         = Inr (st', Some (tweet_text, image_url, ok))
      \<longrightarrow> ok = send_tweet_with_image v2_client outcome tweet_text image_url)
   \<and> (run_once L now v2_client response outcome st
         = Inr (st', Some (tweet_text, image_url, False))
      \<longrightarrow> tweeted_event_ids st' = tweeted_event_ids st
          \<and> total_tweets_sent st' = total_tweets_sent st
          \<and> st' = st\<lparr>last_poll_time := Some (isoformat now)\<rparr>)"
proof (intro conjI impI)
  assume "v2_client \<and> outcome \<in> {TooManyRequests, TwitterServerError, OtherException}"
  then show "\<not> send_tweet_with_image v2_client outcome tweet_text image_url"
    by (auto simp: send_tweet_with_image_def)
next
  assume "run_once L now v2_client response outcome st
            = Inr (st', Some (tweet_text, image_url, ok))"
  then show "ok = send_tweet_with_image v2_client outcome tweet_text image_url"
    using run_once_attempt by blast
next
  assume run: "run_once L now v2_client response outcome st
                 = Inr (st', Some (tweet_text, image_url, False))"
  from run_once_attempt[OF run]
  have st': "st' = st\<lparr>last_poll_time := Some (isoformat now)\<rparr>"
    by simp
  then show "tweeted_event_ids st' = tweeted_event_ids st"
    and "total_tweets_sent st' = total_tweets_sent st"
    and "st' = st\<lparr>last_poll_time := Some (isoformat now)\<rparr>"
    by simp_all
qed

text \<open>C5 on an iteration that finds the event \<^verbatim>\<open>a\<close> and is answered by a rate limit: the
  state had announced \<^verbatim>\<open>b\<close> and sent one tweet, and so it has afterwards.\<close>

theorem run_once_failed_publish_records_nothing_witness:
  "\<not> send_tweet_with_image True TooManyRequests [] None
   \<and> (\<exists>st' tweet_text.
         run_once core_lib now_sample True (Inr (JArr [JObj ev_recent])) TooManyRequests st_seen
           = Inr (st', Some (tweet_text, None, False))
         \<and> tweeted_event_ids st' = Some [U ''b''] \<and> total_tweets_sent st' = Some 1)"
proof -
  obtain tweet_text where rendered: "format_tweet core_lib ev_recent = Inr tweet_text"
    using format_sample by blast
  have failed: "\<not> send_tweet_with_image True TooManyRequests tweet_text None"
    and failed': "\<not> send_tweet_with_image True TooManyRequests [] None"
    using run_once_failed_publish_records_nothing[of True TooManyRequests]
    by blast+
  then have "False = send_tweet_with_image True TooManyRequests tweet_text
                       (get_event_image_url ev_recent)"
    by (simp add: best_sample)
  from run_once_publishes[OF fetch_sample _ filter_sample(1) _ best_sample(2) ev_recent_not_empty best_sample(3,1) rendered this]
  have run: "run_once core_lib now_sample True (Inr (JArr [JObj ev_recent])) TooManyRequests st_seen
               = Inr (st_seen\<lparr>last_poll_time := Some (isoformat now_sample)\<rparr>,
                      Some (tweet_text, None, False))"
    by (simp add: best_sample)
  from run_once_failed_publish_records_nothing[where L = core_lib and now = now_sample
         and ?v2_client = True and response = "Inr (JArr [JObj ev_recent])"
         and outcome = TooManyRequests and st = st_seen and tweet_text = tweet_text
         and image_url = None
         and st' = "st_seen\<lparr>last_poll_time := Some (isoformat now_sample)\<rparr>"] run
  have "tweeted_event_ids (st_seen\<lparr>last_poll_time := Some (isoformat now_sample)\<rparr>)
          = tweeted_event_ids st_seen"
    and "total_tweets_sent (st_seen\<lparr>last_poll_time := Some (isoformat now_sample)\<rparr>)
          = total_tweets_sent st_seen"
    by blast+
  then have "tweeted_event_ids (st_seen\<lparr>last_poll_time := Some (isoformat now_sample)\<rparr>)
          = Some [U ''b'']"
    and "total_tweets_sent (st_seen\<lparr>last_poll_time := Some (isoformat now_sample)\<rparr>) = Some 1"
    by (simp_all add: st_seen_def)
  with run failed' show ?thesis by blast
qed

text \<open>
  C9: after an iteration of \<^verbatim>\<open>run_once\<close> whose publish succeeded, the list of
  announced ids is what is left of the old list followed by the new id when the oldest
  entries are dropped from its front; it has 500 entries when that list has more, and all
  of its entries otherwise. So it never has more than 500 entries, and the entries
  dropped are the oldest.
\<close>

theorem run_once_keeps_last_500:
  assumes "run_once L now v2_client response outcome st
             = Inr (st', Some (tweet_text, image_url, True))"
  shows "\<exists>ids event_id dropped.
           tweeted_event_ids st' = Some ids
           \<and> tweeted_ids_of st @ [event_id] = dropped @ ids
           \<and> length ids = min 500 (length (tweeted_ids_of st) + 1)
           \<and> length ids \<le> 500"
proof -
  from run_once_attempt[OF assms] obtain best_event where
    "st' = (mark_tweeted st (event_id_of L best_event))\<lparr>last_poll_time := Some (isoformat now)\<rparr>"
    by auto
  then have ids: "tweeted_event_ids st'
                    = Some (keep_last 500 (tweeted_ids_of st @ [event_id_of L best_event]))"
    by (simp add: mark_tweeted_def Let_def)
  let ?all = "tweeted_ids_of st @ [event_id_of L best_event]"
  have "?all = take (length ?all - 500) ?all @ keep_last 500 ?all"
    by (rule keep_last_suffix)
  moreover have "length (keep_last 500 ?all) = min 500 (length (tweeted_ids_of st) + 1)"
    by (simp add: keep_last_suffix)
  ultimately show ?thesis
    using ids by (intro exI[of _ "keep_last 500 ?all"] exI[of _ "event_id_of L best_event"]
                    exI[of _ "take (length ?all - 500) ?all"]) simp
qed

text \<open>C9 on the state with 500 announced ids and an iteration that publishes the event
  \<^verbatim>\<open>a\<close>: the id \<^verbatim>\<open>old\<close> is dropped, and the list keeps 500 entries, the last of them
  \<^verbatim>\<open>a\<close>.\<close>

theorem run_once_keeps_last_500_witness:
  "\<exists>st' tweet_text ids.
     run_once core_lib now_sample True (Inr (JArr [JObj ev_recent])) Created st_full
       = Inr (st', Some (tweet_text, None, True))
     \<and> tweeted_ids_of st_full = U ''old'' # replicate 499 (U ''b'')
     \<and> tweeted_event_ids st' = Some ids
     \<and> ids = replicate 499 (U ''b'') @ [U ''a'']
     \<and> length ids = 500"
proof -
  obtain tweet_text where rendered: "format_tweet core_lib ev_recent = Inr tweet_text"
    using format_sample by blast
  have "True = send_tweet_with_image True Created tweet_text (get_event_image_url ev_recent)"
    by (simp add: send_tweet_with_image_def)
  from run_once_publishes[OF fetch_sample _ filter_sample(2) _ best_sample(2) ev_recent_not_empty best_sample(3,1) rendered this]
  have run: "run_once core_lib now_sample True (Inr (JArr [JObj ev_recent])) Created st_full
               = Inr ((mark_tweeted st_full (U ''a''))\<lparr>last_poll_time := Some (isoformat now_sample)\<rparr>,
                      Some (tweet_text, None, True))"
    by (simp add: best_sample)
  let ?st' = "(mark_tweeted st_full (U ''a''))\<lparr>last_poll_time := Some (isoformat now_sample)\<rparr>"
  have old: "tweeted_ids_of st_full = U ''old'' # replicate 499 (U ''b'')"
    by (simp add: tweeted_ids_of_def st_full_def)
  have new: "tweeted_event_ids ?st' = Some (replicate 499 (U ''b'') @ [U ''a''])"
    by (simp add: mark_tweeted_def tweeted_ids_of_def st_full_def keep_last_def Let_def)
  from run_once_keeps_last_500[OF run] obtain ids where
    "tweeted_event_ids ?st' = Some ids" and "length ids = min 500 (length (tweeted_ids_of st_full) + 1)"
    by blast
  with old new have "length (replicate 499 (U ''b'') @ [U ''a'']) = 500"
    by simp
  with run old new show ?thesis
    by blast
qed

section \<open>Properties of the fetch\<close>

lemma scan_recent_prefix:
  assumes "\<forall>d\<in>set pre. \<exists>s. dict_get_or d (U ''createdAt'') (JStr []) = JStr s
                              \<and> \<not> str_less s cutoff_str"
  shows "scan_recent cutoff_str (map JObj pre @ rest) recent
           = scan_recent cutoff_str rest (recent @ pre)"
  using assms
proof (induction pre arbitrary: recent)
  case Nil
  then show ?case by simp
next
  case (Cons d pre)
  then obtain s where "dict_get_or d (U ''createdAt'') (JStr []) = JStr s"
    and "\<not> str_less s cutoff_str"
    by auto
  then have "scan_recent cutoff_str (map JObj (d # pre) @ rest) recent
               = scan_recent cutoff_str (map JObj pre @ rest) (recent @ [d])"
    by simp
  with Cons show ?case by simp
qed

lemma str_less_empty: "c \<noteq> [] \<Longrightarrow> str_less [] c"
  by (cases c) simp_all

lemma strftime_cutoff_not_empty: "strftime_cutoff t \<noteq> []"
  by (simp add: strftime_cutoff_def Let_def split: prod.splits)

text \<open>The scan stops at the first event whose \<^verbatim>\<open>createdAt\<close> is a string below the
  cutoff string, and returns the events before it.\<close>

lemma scan_recent_stops:
  assumes "\<forall>d\<in>set pre. \<exists>s. dict_get_or d (U ''createdAt'') (JStr []) = JStr s
                              \<and> \<not> str_less s cutoff_str"
    and "dict_get_or event (U ''createdAt'') (JStr []) = JStr created_at"
    and "str_less created_at cutoff_str"
  shows "scan_recent cutoff_str (map JObj pre @ JObj event # post) [] = Inr pre"
  using assms(2,3) by (simp add: scan_recent_prefix[OF assms(1)])

text \<open>
  The errors. With a cutoff in the range of \<^verbatim>\<open>datetime\<close>, as it is for the lookback
  of 10 minutes at any time after the year 1, \<^verbatim>\<open>fetch_recent_events\<close> returns a list
  whatever the request and the decoding come to: the empty list when they raise, when
  the decoded value is not a list, and when an element of the list has no \<^verbatim>\<open>get\<close> or
  a \<^verbatim>\<open>createdAt\<close> that does not compare with a string.
\<close>

lemma fetch_recent_events_returns:
  assumes "minus_minutes now lookback_minutes = Inr cutoff"
  shows "\<exists>recent. fetch_recent_events now lookback_minutes response = Inr recent"
    and "fetch_recent_events now lookback_minutes (Inl err) = Inr []"
  using assms
  by (auto simp: fetch_recent_events_def Let_def split: sum.splits json.splits)

lemma minus_minutes_lookback:
  "DATETIME_MIN + 600000000 \<le> now \<Longrightarrow> now \<le> DATETIME_MAX \<Longrightarrow>
     minus_minutes now LOOKBACK_MINUTES = Inr (now - 600000000)"
  by (simp add: minus_minutes_def LOOKBACK_MINUTES_def DATETIME_MIN_def DATETIME_MAX_def)

text \<open>
  C10: the raw \<^verbatim>\<open>createdAt\<close> string is compared with the formatted cutoff in the order
  of strings, in which the empty string is below every cutoff. So when the events
  \<open>pre\<close> at the front of the response have a \<^verbatim>\<open>createdAt\<close> that is not below the
  cutoff string and the next event has no \<^verbatim>\<open>createdAt\<close> or an empty one, the scan ends
  at that event: \<^verbatim>\<open>fetch_recent_events\<close> returns \<open>pre\<close>, whatever follows in the
  response.
\<close>

theorem fetch_recent_events_stops_at_missing_created_at:
  assumes "minus_minutes now lookback_minutes = Inr cutoff"
    and "\<forall>d\<in>set pre. \<exists>s. dict_get_or d (U ''createdAt'') (JStr []) = JStr s
                            \<and> \<not> str_less s (strftime_cutoff cutoff)"
    and "map_of event (U ''createdAt'') = None \<or> map_of event (U ''createdAt'') = Some (JStr [])"
  shows "str_less [] (strftime_cutoff cutoff)
         \<and> fetch_recent_events now lookback_minutes
              (Inr (JArr (map JObj pre @ JObj event # post))) = Inr pre"
proof -
  have below: "str_less [] (strftime_cutoff cutoff)"
    by (simp add: str_less_empty strftime_cutoff_not_empty)
  have "dict_get_or event (U ''createdAt'') (JStr []) = JStr []"
    using assms(3) by (auto simp: dict_get_or_def)
  from scan_recent_stops[OF assms(2) this below]
  have "scan_recent (strftime_cutoff cutoff) (map JObj pre @ JObj event # post) [] = Inr pre" .
  then show ?thesis
    using assms(1) below by (simp add: fetch_recent_events_def Let_def)
qed

lemma created_samples:
  "dict_get_or ev_recent (U ''createdAt'') (JStr []) = JStr (U ''2025-01-01T12:05:00Z'')"
  "\<not> str_less (U ''2025-01-01T12:05:00Z'') (U ''2025-01-01T12:00:00Z'')"
  "map_of ev_low (U ''createdAt'') = None"
  by code_simp+

text \<open>C10 at \<open>now_sample\<close> on a response of three events, the second of which has no
  \<^verbatim>\<open>createdAt\<close>: the first is returned and the third, created as recently as the first,
  is dropped.\<close>

theorem fetch_recent_events_stops_at_missing_created_at_witness:
  "minus_minutes now_sample LOOKBACK_MINUTES = Inr 1735732800000000
   \<and> strftime_cutoff 1735732800000000 = U ''2025-01-01T12:00:00Z''
   \<and> dict_get_or ev_recent (U ''createdAt'') (JStr []) = JStr (U ''2025-01-01T12:05:00Z'')
   \<and> \<not> str_less (U ''2025-01-01T12:05:00Z'') (U ''2025-01-01T12:00:00Z'')
   \<and> map_of ev_low (U ''createdAt'') = None
   \<and> str_less [] (U ''2025-01-01T12:00:00Z'')
   \<and> fetch_recent_events now_sample LOOKBACK_MINUTES
         (Inr (JArr [JObj ev_recent, JObj ev_low, JObj ev_recent])) = Inr [ev_recent]"
proof -
  have pre: "\<forall>d\<in>set [ev_recent]. \<exists>s. dict_get_or d (U ''createdAt'') (JStr []) = JStr s
                \<and> \<not> str_less s (strftime_cutoff 1735732800000000)"
    using created_samples(1,2) cutoff_sample(2) by simp
  have missing: "map_of ev_low (U ''createdAt'') = None
                 \<or> map_of ev_low (U ''createdAt'') = Some (JStr [])"
    using created_samples(3) by simp
  from fetch_recent_events_stops_at_missing_created_at[OF cutoff_sample(1) pre missing,
         of "[JObj ev_recent]"]
  have "str_less [] (strftime_cutoff 1735732800000000)"
    and "fetch_recent_events now_sample LOOKBACK_MINUTES
           (Inr (JArr [JObj ev_recent, JObj ev_low, JObj ev_recent])) = Inr [ev_recent]"
    by simp_all
  then show ?thesis
    using cutoff_sample created_samples by simp
qed

text \<open>
  C7 says that \<^verbatim>\<open>fetch_recent_events\<close> keeps the events up to the first one created
  before \<open>now\<close> minus the lookback. The function fails to do so on an event created in
  the second of the cutoff, its time written with a fraction. At \<open>now_sample\<close> the cutoff
  is 12:00:00 and is formatted as \<^verbatim>\<open>2025-01-01T12:00:00Z\<close>. The event created at
  12:00:00.900, after the cutoff, is dropped, because in the order of strings its
  \<^verbatim>\<open>createdAt\<close> is below the cutoff string, a full stop coming before \<^verbatim>\<open>Z\<close>; the
  event created at the cutoff itself, 900 milliseconds earlier, is kept.
\<close>

theorem fetch_recent_events_drops_event_of_cutoff_second:
  "minus_minutes now_sample LOOKBACK_MINUTES = Inr 1735732800000000
   \<and> strftime_cutoff 1735732800000000 = U ''2025-01-01T12:00:00Z''
   \<and> dict_get ev_same_second (U ''createdAt'') = JStr (U ''2025-01-01T12:00:00.900Z'')
   \<and> fromisoformat core_lib (U ''2025-01-01T12:00:00.900+00:00'') = Some (Aware 1735732800900000)
   \<and> (1735732800000000 :: int) < 1735732800900000
   \<and> str_less (U ''2025-01-01T12:00:00.900Z'') (U ''2025-01-01T12:00:00Z'')
   \<and> fetch_recent_events now_sample LOOKBACK_MINUTES (Inr (JArr [JObj ev_same_second])) = Inr []
   \<and> fetch_recent_events now_sample LOOKBACK_MINUTES (Inr (JArr [JObj ev_at_cutoff]))
       = Inr [ev_at_cutoff]"
  by code_simp

end
